theory Spec2Isabelle
  imports Complex_Main
begin

section \<open>The storefront client (src/lib/supabase.ts): data model\<close>

text \<open>
  The client keeps the cart in one localStorage slot and everything else in remote
  tables (categories, products, orders, order_items, notifications). The interfaces of
  the source become records with the source's field names; several interfaces share a
  field name (\<open>id\<close>, \<open>quantity\<close>, ...), so a field is written with its record's name
  in front (\<open>CartItem.quantity\<close>).

  A JavaScript \<open>number\<close> is an IEEE 754 double; its arithmetic is modelled first.
\<close>

subsection \<open>Numbers\<close>

text \<open>
  A double is a finite value, an infinity or NaN. A finite double is given by its value,
  a rational; \<open>-0\<close> is not told apart from \<open>0\<close> (the program never divides and never
  prints the sign of a zero: \<open>JSON.stringify(-0)\<close> is \<open>0\<close>).
\<close>

datatype double = Fin rat | PosInfinity | NegInfinity | NaN

text \<open>
  What a field typed \<open>number\<close> holds at run time: a double, or \<open>null\<close>, which is what
  \<open>JSON.stringify\<close> writes for NaN and the infinities and what a nullable column
  returns.
\<close>

datatype number = Double double | NumNull

abbreviation num :: "rat \<Rightarrow> number" where
  "num x \<equiv> Double (Fin x)"

text \<open>
  Rounding to the nearest double, ties to even. \<open>exponent a\<close> is the power of two of
  the last place of the double nearest to \<open>a > 0\<close>: the \<open>e\<close> with
  \<open>2^52 \<le> a / 2^e < 2^53\<close>, and -1074 for the subnormal range. The significand is
  \<open>a / 2^e\<close> rounded to an integer, and a result of \<open>2^1024\<close> or more is an infinity.
\<close>

definition pow2 :: "int \<Rightarrow> rat" where
  "pow2 e = (if 0 \<le> e then 2 ^ nat e else 1 / 2 ^ nat (- e))"

definition round_half_even :: "rat \<Rightarrow> int" where
  "round_half_even x =
     (let f = \<lfloor>x\<rfloor>; d = x - of_int f
      in if d < 1 / 2 then f else if 1 / 2 < d then f + 1 else if even f then f else f + 1)"

function scale_down :: "rat \<Rightarrow> int \<Rightarrow> int" where
  "scale_down x e = (if 2 ^ 53 \<le> x then scale_down (x / 2) (e + 1) else e)"
  by pat_completeness auto
termination
proof (relation "measure (\<lambda>(x, e). nat \<lfloor>x\<rfloor>)")
  show "wf (measure (\<lambda>(x, e). nat \<lfloor>x\<rfloor>))" by simp
next
  fix x :: rat and e :: int
  assume a: "2 ^ 53 \<le> x"
  then have "x / 2 < x - 1" by simp
  moreover have "of_int \<lfloor>x / 2\<rfloor> \<le> x / 2" by (rule of_int_floor_le)
  moreover have "x - 1 < of_int \<lfloor>x\<rfloor>" by linarith
  ultimately have "(of_int \<lfloor>x / 2\<rfloor> :: rat) < of_int \<lfloor>x\<rfloor>" by linarith
  then have "\<lfloor>x / 2\<rfloor> < \<lfloor>x\<rfloor>" by simp
  moreover from a have "0 < \<lfloor>x\<rfloor>" by simp
  ultimately show "((x / 2, e + 1), (x, e)) \<in> measure (\<lambda>(x, e). nat \<lfloor>x\<rfloor>)"
    by simp
qed

function scale_up :: "rat \<Rightarrow> int \<Rightarrow> int" where
  "scale_up x e = (if x < 2 ^ 52 \<and> - 1074 < e then scale_up (x * 2) (e - 1) else e)"
  by pat_completeness auto
termination
  by (relation "measure (\<lambda>(x, e). nat (e + 1074))") auto

declare scale_down.simps [simp del] scale_up.simps [simp del]

definition exponent :: "rat \<Rightarrow> int" where
  "exponent a = (if 2 ^ 53 \<le> a then scale_down a 0 else scale_up a 0)"

definition round_double :: "rat \<Rightarrow> double" where
  "round_double x =
     (if x = 0 then Fin 0
      else
        let a = \<bar>x\<bar>;
            e = exponent a;
            v = of_int (round_half_even (a / pow2 e)) * pow2 e
        in if 2 ^ 1024 \<le> v then (if 0 < x then PosInfinity else NegInfinity)
           else Fin (if 0 < x then v else - v))"

text \<open>The operators on doubles, case by case as IEEE 754 has them.\<close>

fun add_double :: "double \<Rightarrow> double \<Rightarrow> double" where
  "add_double NaN y = NaN"
| "add_double x NaN = NaN"
| "add_double PosInfinity NegInfinity = NaN"
| "add_double NegInfinity PosInfinity = NaN"
| "add_double PosInfinity y = PosInfinity"
| "add_double x PosInfinity = PosInfinity"
| "add_double NegInfinity y = NegInfinity"
| "add_double x NegInfinity = NegInfinity"
| "add_double (Fin x) (Fin y) = round_double (x + y)"

fun mul_double :: "double \<Rightarrow> double \<Rightarrow> double" where
  "mul_double NaN y = NaN"
| "mul_double x NaN = NaN"
| "mul_double PosInfinity PosInfinity = PosInfinity"
| "mul_double PosInfinity NegInfinity = NegInfinity"
| "mul_double NegInfinity PosInfinity = NegInfinity"
| "mul_double NegInfinity NegInfinity = PosInfinity"
| "mul_double PosInfinity (Fin y) =
     (if y = 0 then NaN else if 0 < y then PosInfinity else NegInfinity)"
| "mul_double NegInfinity (Fin y) =
     (if y = 0 then NaN else if 0 < y then NegInfinity else PosInfinity)"
| "mul_double (Fin x) PosInfinity =
     (if x = 0 then NaN else if 0 < x then PosInfinity else NegInfinity)"
| "mul_double (Fin x) NegInfinity =
     (if x = 0 then NaN else if 0 < x then NegInfinity else PosInfinity)"
| "mul_double (Fin x) (Fin y) = round_double (x * y)"

fun gt_double :: "double \<Rightarrow> double \<Rightarrow> bool" where
  "gt_double NaN y = False"
| "gt_double x NaN = False"
| "gt_double PosInfinity PosInfinity = False"
| "gt_double PosInfinity y = True"
| "gt_double x PosInfinity = False"
| "gt_double NegInfinity y = False"
| "gt_double x NegInfinity = True"
| "gt_double (Fin x) (Fin y) = (y < x)"

text \<open>
  The operators of the source on operands typed \<open>number\<close>: \<open>null\<close> is converted to 0
  first (\<open>ToNumber\<close>). \<open>a <= b\<close> is false when an operand is NaN and the negation of
  \<open>a > b\<close> otherwise.
\<close>

fun to_double :: "number \<Rightarrow> double" where
  "to_double (Double d) = d"
| "to_double NumNull = Fin 0"

definition js_add :: "number \<Rightarrow> number \<Rightarrow> number" where
  "js_add a b = Double (add_double (to_double a) (to_double b))"

definition js_mul :: "number \<Rightarrow> number \<Rightarrow> number" where
  "js_mul a b = Double (mul_double (to_double a) (to_double b))"

definition js_gt :: "number \<Rightarrow> number \<Rightarrow> bool" where
  "js_gt a b = gt_double (to_double a) (to_double b)"

definition js_le :: "number \<Rightarrow> number \<Rightarrow> bool" where
  "js_le a b =
     (to_double a \<noteq> NaN \<and> to_double b \<noteq> NaN \<and> \<not> gt_double (to_double a) (to_double b))"

text \<open>Truthiness: 0, NaN and \<open>null\<close> are falsy.\<close>

fun truthy :: "number \<Rightarrow> bool" where
  "truthy (Double (Fin x)) = (x \<noteq> 0)"
| "truthy (Double PosInfinity) = True"
| "truthy (Double NegInfinity) = True"
| "truthy (Double NaN) = False"
| "truthy NumNull = False"

text \<open>
  A number through \<open>JSON.stringify\<close> and \<open>JSON.parse\<close>: a finite double comes back as
  it was, NaN and the infinities come back as \<open>null\<close>.
\<close>

fun json_number :: "number \<Rightarrow> number" where
  "json_number (Double (Fin x)) = Double (Fin x)"
| "json_number (Double PosInfinity) = NumNull"
| "json_number (Double NegInfinity) = NumNull"
| "json_number (Double NaN) = NumNull"
| "json_number NumNull = NumNull"

subsection \<open>Records\<close>

record Category =
  id :: string
  name :: string
  slug :: string
  image_url :: "string option"

text \<open>
  \<open>category?: any\<close> is the row the join \<open>category:categories(*)\<close> embeds; a row read
  without the join has none.
\<close>

record Product =
  id :: string
  name :: string
  price :: number
  original_price :: "number option"
  discount_percent :: "number option"
  images :: "string list"
  rating :: "number option"
  reviews_count :: "number option"
  category :: "Category option"
  category_id :: "string option"
  description :: "string option"
  stock :: "number option"
  highlights :: "string list option"
  specifications :: "(string \<times> string) list option"

record CartItem =
  id :: string
  product_id :: string
  quantity :: number
  product :: "Product option"

record ShippingAddress =
  name :: string
  phone :: string
  address :: string
  city :: string
  state :: string
  pincode :: string

text \<open>
  The second parameter of \<open>createOrder\<close>, an object type written inline in the source.
  Its field \<open>method\<close> is \<open>pay_method\<close> here (the plain name is reserved).
\<close>

record PaymentDetails =
  pay_method :: string
  status :: string
  transactionId :: "string option"

datatype order_status = pending | processing | shipped | delivered | cancelled

record OrderItem =
  id :: string
  order_id :: string
  product_id :: string
  product_name :: string
  product_image :: "string option"
  price :: number
  quantity :: number

record Order =
  id :: string
  created_at :: string
  order_number :: string
  shipping_name :: string
  shipping_phone :: string
  shipping_address :: string
  shipping_city :: string
  shipping_state :: string
  shipping_pincode :: string
  subtotal :: number
  shipping_cost :: number
  total :: number
  status :: order_status
  payment_method :: string
  payment_status :: string
  transaction_id :: "string option"
  order_items :: "OrderItem list option"

datatype notification_status = pending | sent | failed

text \<open>
  A row of \<open>notifications\<close>, without its \<open>content\<close> (an opaque payload, \<open>any\<close> in the
  source). Only \<open>sendOrderNotification\<close> writes this table; that function and the two
  reads of orders (\<open>getOrder\<close>, \<open>getOrders\<close>) are not embedded, nothing below depends
  on them.
\<close>

record Notification =
  id :: string
  created_at :: string
  user_id :: "string option"
  email :: string
  type :: string
  order_id :: "string option"
  status :: notification_status

text \<open>
  The objects of \<open>orderItemsData\<close> that \<open>createOrder\<close> sends to the \<open>order_items\<close>
  table: an order item without the key the server assigns.
\<close>

record OrderItemData =
  order_id :: string
  product_id :: string
  product_name :: string
  product_image :: "string option"
  price :: number
  quantity :: number

subsection \<open>Values, errors and the local slot\<close>

text \<open>
  \<open>JSON.parse\<close> returns \<open>any\<close>: what \<open>getCartFromStorage\<close> hands to its callers is a
  JavaScript value that TypeScript takes for a \<open>CartItem[]\<close> without looking. The
  values of the model are the arrays of cart items and the JSON scalars; objects and
  arrays of anything else are not represented.
\<close>

datatype jsvalue =
  Items "CartItem list"
| Null
| Bool bool
| Num number
| Str string

text \<open>
  The text held under the key \<open>flipkart_cart\<close>, told apart by what the source does
  with it: the empty string (falsy, never parsed), a text on which \<open>JSON.parse\<close>
  throws, and a text that is the JSON of a value. The slot is \<open>None\<close> when the key is
  absent (\<open>getItem\<close> returns \<open>null\<close>).
\<close>

datatype slot_text = Empty_text | Malformed | Encodes jsvalue

datatype error = Error string | TypeError | SyntaxError

record world =
  slot :: "slot_text option"
  categories :: "Category list"
  products :: "Product list"
  orders :: "Order list"
  order_items :: "OrderItem list"
  notifications :: "Notification list"

text \<open>
  What the outside answers during one call: the clock (\<open>Date.now()\<close>, an integer
  count of milliseconds), whether \<open>localStorage.setItem\<close> accepts a write or throws,
  whether each kind of remote request succeeds, and the keys and timestamp the server
  assigns to the rows it inserts.
\<close>

record env =
  now :: nat
  setItem_ok :: bool
  categories_ok :: bool
  products_ok :: bool
  product_ok :: "string \<Rightarrow> bool"
  orders_ok :: bool
  order_items_ok :: bool
  new_order_id :: string
  new_created_at :: string
  new_item_id :: "nat \<Rightarrow> string"

subsection \<open>Helpers of the JavaScript library\<close>

text \<open>\<open>Number.prototype.toString\<close> on a natural number: its decimal digits.\<close>

definition digit :: "nat \<Rightarrow> char" where
  "digit n = ''0123456789'' ! (n mod 10)"

function toString :: "nat \<Rightarrow> string" where
  "toString n = (if n < 10 then [digit n] else toString (n div 10) @ [digit n])"
  by pat_completeness auto
termination
  by (relation "measure (\<lambda>n. n)") auto

declare toString.simps [simp del]

text \<open>
  \<open>item.quantity = v\<close> on the object that \<open>Array.prototype.find\<close> returned: the first
  element that satisfies the predicate is changed in place, every other one is kept.
\<close>

fun update_first :: "('a \<Rightarrow> bool) \<Rightarrow> ('a \<Rightarrow> 'a) \<Rightarrow> 'a list \<Rightarrow> 'a list" where
  "update_first P f [] = []"
| "update_first P f (x # xs) = (if P x then f x # xs else x # update_first P f xs)"

text \<open>
  A method call (\<open>find\<close>, \<open>filter\<close>, \<open>map\<close>, \<open>push\<close>) on the value read from the slot:
  it works on an array, and raises a TypeError on \<open>null\<close> (property access) and on a
  boolean, a number or a string (the method is \<open>undefined\<close>, so the call fails).
\<close>

fun array_of :: "jsvalue \<Rightarrow> error + CartItem list" where
  "array_of (Items xs) = Inr xs"
| "array_of Null = Inl TypeError"
| "array_of (Bool b) = Inl TypeError"
| "array_of (Num n) = Inl TypeError"
| "array_of (Str s) = Inl TypeError"

text \<open>
  \<open>cart.length\<close>: the length of an array or of a string, \<open>undefined\<close> (\<open>None\<close>) on a
  boolean or a number, a TypeError on \<open>null\<close>.
\<close>

fun js_length :: "jsvalue \<Rightarrow> error + nat option" where
  "js_length (Items xs) = Inr (Some (length xs))"
| "js_length Null = Inl TypeError"
| "js_length (Bool b) = Inr None"
| "js_length (Num n) = Inr None"
| "js_length (Str s) = Inr (Some (length s))"

text \<open>\<open>.single()\<close>: the row when the query has exactly one, no data otherwise.\<close>

fun single :: "'a list \<Rightarrow> 'a option" where
  "single [x] = Some x"
| "single xs = None"

section \<open>The Local Cart Store\<close>

fun JSON_parse :: "slot_text \<Rightarrow> error + jsvalue" where
  "JSON_parse Empty_text = Inl SyntaxError"
| "JSON_parse Malformed = Inl SyntaxError"
| "JSON_parse (Encodes v) = Inr v"

text \<open>The body of the \<open>try\<close> in \<open>getCartFromStorage\<close>: \<open>stored ? JSON.parse(stored) : []\<close>.\<close>

definition getCartFromStorage_try :: "slot_text option \<Rightarrow> error + jsvalue" where
  "getCartFromStorage_try stored =
     (case stored of
        None \<Rightarrow> Inr (Items [])
      | Some t \<Rightarrow> if t = Empty_text then Inr (Items []) else JSON_parse t)"

text \<open>\<open>getCartFromStorage\<close>: the \<open>catch\<close> turns every exception of the body into \<open>[]\<close>.\<close>

definition getCartFromStorage :: "world \<Rightarrow> jsvalue" where
  "getCartFromStorage w =
     (case getCartFromStorage_try (slot w) of
        Inl e \<Rightarrow> Items []
      | Inr v \<Rightarrow> v)"

text \<open>
  What \<open>JSON.stringify\<close> keeps of a cart item: its quantity as JSON holds a number. The
  other fields of an item were read from JSON and go back as they are.
\<close>

definition json_item :: "CartItem \<Rightarrow> CartItem" where
  "json_item item = item\<lparr>CartItem.quantity := json_number (CartItem.quantity item)\<rparr>"

text \<open>
  \<open>saveCartToStorage\<close>: when \<open>setItem\<close> accepts the write, the slot holds the JSON of
  the cart afterwards; when it throws, the \<open>catch\<close> logs the error and the slot stays
  as it was.
\<close>

definition saveCartToStorage :: "env \<Rightarrow> CartItem list \<Rightarrow> world \<Rightarrow> world" where
  "saveCartToStorage e cart w =
     (if setItem_ok e then w\<lparr>slot := Some (Encodes (Items (map json_item cart)))\<rparr> else w)"

definition getCartItemsFromStorage :: "world \<Rightarrow> jsvalue" where
  "getCartItemsFromStorage w = getCartFromStorage w"

text \<open>The cart items in the slot, as a reader of the store sees them.\<close>

definition stored_items :: "world \<Rightarrow> CartItem list" where
  "stored_items w = (case getCartFromStorage w of Items xs \<Rightarrow> xs | _ \<Rightarrow> [])"

section \<open>The Remote Catalog Client\<close>

definition getCategories :: "env \<Rightarrow> world \<Rightarrow> Category list" where
  "getCategories e w = (if categories_ok e then categories w else [])"

text \<open>
  The embedding \<open>category:categories(*)\<close> of a \<open>select\<close> on products: the category
  row that the product's foreign key \<open>category_id\<close> names, if any.
\<close>

definition with_category :: "world \<Rightarrow> Product \<Rightarrow> Product" where
  "with_category w p =
     p\<lparr>category :=
         (case category_id p of
            None \<Rightarrow> None
          | Some c \<Rightarrow> find (\<lambda>k. Category.id k = c) (categories w))\<rparr>"

text \<open>
  \<open>supabase.from('categories').select('id').eq('slug', categorySlug).single()\<close>: the
  \<open>data\<close> of the answer, \<open>null\<close> on an error and when no row (or more than one) has
  the slug.
\<close>

definition catData :: "env \<Rightarrow> string \<Rightarrow> world \<Rightarrow> string option" where
  "catData e categorySlug w =
     (if categories_ok e
      then map_option Category.id (single (filter (\<lambda>c. slug c = categorySlug) (categories w)))
      else None)"

text \<open>
  The products query once it is awaited, with or without the filter
  \<open>.eq('category_id', id)\<close>: \<open>None\<close> is an answer with an \<open>error\<close>.
\<close>

definition products_query :: "env \<Rightarrow> string option \<Rightarrow> world \<Rightarrow> Product list option" where
  "products_query e flt w =
     (if products_ok e
      then Some (map (with_category w)
             (case flt of
                None \<Rightarrow> products w
              | Some cid \<Rightarrow> filter (\<lambda>p. category_id p = Some cid) (products w)))
      else None)"

text \<open>
  \<open>getProducts\<close>. The ranking of fuse.js is a library outside the repository: \<open>Fuse\<close>
  stands for \<open>new Fuse(result, fuseOptions).search(searchQuery).map(res => res.item)\<close>.
  The \<open>map\<close> that rebuilds each row with its own \<open>category\<close> is the identity.
\<close>

definition getProducts ::
  "(Product list \<Rightarrow> string \<Rightarrow> Product list) \<Rightarrow> env \<Rightarrow> string \<Rightarrow> string \<Rightarrow> world \<Rightarrow> Product list"
where
  "getProducts Fuse e categorySlug searchQuery w =
     (let flt = (if categorySlug \<noteq> [] \<and> categorySlug \<noteq> ''all''
                 then (case catData e categorySlug w of
                         Some cid \<Rightarrow> Some cid
                       | None \<Rightarrow> None)
                 else None)
      in case products_query e flt w of
           None \<Rightarrow> []
         | Some rows \<Rightarrow> if searchQuery \<noteq> [] then Fuse rows searchQuery else rows)"

text \<open>
  \<open>getProduct\<close>: \<open>.eq('id', id).single()\<close>; \<open>null\<close> on any error, which includes a
  request that fails and a key that no row (or more than one) has.
\<close>

definition getProduct :: "env \<Rightarrow> string \<Rightarrow> world \<Rightarrow> Product option" where
  "getProduct e pid w =
     (if product_ok e pid
      then map_option (with_category w) (single (filter (\<lambda>p. Product.id p = pid) (products w)))
      else None)"

section \<open>The Cart Assembly Service\<close>

text \<open>
  Every operation returns what it returns or raises, and the world it leaves behind.
  \<open>getCartItems\<close> only reads; its delay of 200 ms has no effect on the state. The
  quantity of \<open>addToCart\<close> is 1 when the caller leaves it out, and so are the slug
  \<open>'all'\<close> and the empty search query of \<open>getProducts\<close>: a caller of the model
  passes them.
\<close>

definition getCartItems :: "env \<Rightarrow> world \<Rightarrow> error + CartItem list" where
  "getCartItems e w =
     (case array_of (getCartFromStorage w) of
        Inl err \<Rightarrow> Inl err
      | Inr cart \<Rightarrow>
          Inr (map (\<lambda>item. item\<lparr>product := getProduct e (CartItem.product_id item) w\<rparr>) cart))"

definition addToCart ::
  "env \<Rightarrow> string \<Rightarrow> number \<Rightarrow> world \<Rightarrow> (error + CartItem list) \<times> world"
where
  "addToCart e productId qty w =
     (case array_of (getCartFromStorage w) of
        Inl err \<Rightarrow> (Inl err, w)
      | Inr cart \<Rightarrow>
          let cart' =
                (case find (\<lambda>item. CartItem.product_id item = productId) cart of
                   Some existingItem \<Rightarrow>
                     update_first (\<lambda>item. CartItem.product_id item = productId)
                       (\<lambda>item. item\<lparr>CartItem.quantity := js_add (CartItem.quantity item) qty\<rparr>)
                       cart
                 | None \<Rightarrow>
                     cart @ [\<lparr>CartItem.id = toString (now e), product_id = productId,
                              quantity = qty, product = None\<rparr>]);
              w' = saveCartToStorage e cart' w
          in (getCartItems e w', w'))"

definition updateCartItemQuantity ::
  "env \<Rightarrow> string \<Rightarrow> number \<Rightarrow> world \<Rightarrow> (error + CartItem list) \<times> world"
where
  "updateCartItemQuantity e itemId qty w =
     (case array_of (getCartFromStorage w) of
        Inl err \<Rightarrow> (Inl err, w)
      | Inr cart \<Rightarrow>
          let w' =
                (case find (\<lambda>i. CartItem.id i = itemId) cart of
                   Some item \<Rightarrow>
                     if js_le qty (num 0)
                     then saveCartToStorage e (filter (\<lambda>i. CartItem.id i \<noteq> itemId) cart) w
                     else saveCartToStorage e
                            (update_first (\<lambda>i. CartItem.id i = itemId)
                               (\<lambda>i. i\<lparr>CartItem.quantity := qty\<rparr>) cart) w
                 | None \<Rightarrow> w)
          in (getCartItems e w', w'))"

definition removeFromCart :: "env \<Rightarrow> string \<Rightarrow> world \<Rightarrow> (error + CartItem list) \<times> world" where
  "removeFromCart e itemId w =
     (case array_of (getCartFromStorage w) of
        Inl err \<Rightarrow> (Inl err, w)
      | Inr cart \<Rightarrow>
          let w' = saveCartToStorage e (filter (\<lambda>i. CartItem.id i \<noteq> itemId) cart) w
          in (getCartItems e w', w'))"

definition clearCart :: "env \<Rightarrow> world \<Rightarrow> world" where
  "clearCart e w = saveCartToStorage e [] w"

section \<open>The Order Workflow\<close>

text \<open>
  \<open>Number(item.product?.price || 0)\<close>: 0 for an absent product and for a falsy price;
  \<open>Number\<close> leaves a truthy number as it is.
\<close>

definition price_or_0 :: "CartItem \<Rightarrow> number" where
  "price_or_0 item =
     (case product item of
        None \<Rightarrow> num 0
      | Some p \<Rightarrow> if truthy (Product.price p) then Product.price p else num 0)"

text \<open>
  The row \<open>createOrder\<close> inserts into \<open>orders\<close>, as \<open>.select().single()\<close> returns it:
  the totals computed from the assembled cart, the order number, the shipping and
  payment fields, and the key and timestamp of the server. The row comes back without
  the embedding \<open>order_items(*)\<close>. The three totals are the numbers the call passes
  to \<open>insert\<close>.
\<close>

definition new_order :: "env \<Rightarrow> ShippingAddress \<Rightarrow> PaymentDetails \<Rightarrow> CartItem list \<Rightarrow> Order" where
  "new_order e shippingAddress paymentDetails cartItems =
     (let subtotal =
            foldl (\<lambda>sum item. js_add sum (js_mul (price_or_0 item) (CartItem.quantity item)))
              (num 0) cartItems;
          shipping_cost = (if js_gt subtotal (num 500) then num 0 else num 40);
          total = js_add subtotal shipping_cost;
          orderNumber = ''ORD-'' @ toString (now e)
      in \<lparr>Order.id = new_order_id e,
          created_at = new_created_at e,
          order_number = orderNumber,
          shipping_name = ShippingAddress.name shippingAddress,
          shipping_phone = phone shippingAddress,
          shipping_address = address shippingAddress,
          shipping_city = city shippingAddress,
          shipping_state = state shippingAddress,
          shipping_pincode = pincode shippingAddress,
          subtotal = subtotal,
          shipping_cost = shipping_cost,
          total = total,
          status = order_status.pending,
          payment_method = pay_method paymentDetails,
          payment_status = PaymentDetails.status paymentDetails,
          transaction_id = transactionId paymentDetails,
          order_items = None\<rparr>)"

text \<open>
  \<open>cartItems.map(item => ({ ..., product_name: item.product!.name, ... }))\<close>. The
  \<open>!\<close> is erased by the compiler: on an item without a product, reading \<open>.name\<close> of
  \<open>undefined\<close> raises a TypeError and the \<open>map\<close> is abandoned.
\<close>

fun orderItemsData :: "string \<Rightarrow> CartItem list \<Rightarrow> error + OrderItemData list" where
  "orderItemsData oid [] = Inr []"
| "orderItemsData oid (item # rest) =
     (case product item of
        None \<Rightarrow> Inl TypeError
      | Some p \<Rightarrow>
          (case orderItemsData oid rest of
             Inl err \<Rightarrow> Inl err
           | Inr ds \<Rightarrow>
               Inr (\<lparr>OrderItemData.order_id = oid,
                     product_id = CartItem.product_id item,
                     product_name = Product.name p,
                     product_image = (case images p of [] \<Rightarrow> None | img # _ \<Rightarrow> Some img),
                     price = Product.price p,
                     quantity = CartItem.quantity item\<rparr> # ds)))"

text \<open>
  \<open>supabase.from('order_items').insert(orderItemsData)\<close>: one request, all rows or
  none. A failure is logged and nothing else happens.
\<close>

definition stored_row :: "env \<Rightarrow> nat \<times> OrderItemData \<Rightarrow> OrderItem" where
  "stored_row e kd =
     \<lparr>OrderItem.id = new_item_id e (fst kd),
      order_id = OrderItemData.order_id (snd kd),
      product_id = OrderItemData.product_id (snd kd),
      product_name = OrderItemData.product_name (snd kd),
      product_image = OrderItemData.product_image (snd kd),
      price = OrderItemData.price (snd kd),
      quantity = OrderItemData.quantity (snd kd)\<rparr>"

definition insert_order_items :: "env \<Rightarrow> OrderItemData list \<Rightarrow> world \<Rightarrow> world" where
  "insert_order_items e rows w =
     (if order_items_ok e
      then w\<lparr>world.order_items := world.order_items w @ map (stored_row e) (enumerate 0 rows)\<rparr>
      else w)"

text \<open>
  \<open>createOrder\<close>, in the order of the source: the raw read and the test of
  \<open>cart.length\<close>, the assembled cart, the insert of the order (which raises when it
  fails), the order-item objects, their insert, \<open>clearCart()\<close>. \<open>clearCart\<close> is called
  without \<open>await\<close>, but it has no \<open>await\<close> of its own: its write is done when the call
  returns.
\<close>

definition createOrder ::
  "env \<Rightarrow> ShippingAddress \<Rightarrow> PaymentDetails \<Rightarrow> world \<Rightarrow> (error + Order) \<times> world"
where
  "createOrder e shippingAddress paymentDetails w =
     (let cart = getCartItemsFromStorage w
      in case js_length cart of
           Inl err \<Rightarrow> (Inl err, w)
         | Inr len \<Rightarrow>
             if len = Some 0 then (Inl (Error ''Cart is empty''), w)
             else
               (case getCartItems e w of
                  Inl err \<Rightarrow> (Inl err, w)
                | Inr cartItems \<Rightarrow>
                    if \<not> orders_ok e then (Inl (Error ''Failed to create order''), w)
                    else
                      let order = new_order e shippingAddress paymentDetails cartItems;
                          w1 = w\<lparr>orders := orders w @ [order]\<rparr>
                      in (case orderItemsData (Order.id order) cartItems of
                            Inl err \<Rightarrow> (Inl err, w1)
                          | Inr rows \<Rightarrow>
                              (Inr order, clearCart e (insert_order_items e rows w1)))))"

text \<open>The order rows a call has added to the table.\<close>

definition added_orders :: "world \<Rightarrow> world \<Rightarrow> Order list" where
  "added_orders w w' = drop (length (orders w)) (orders w')"

section \<open>Predicates of the specification and a small shop\<close>

text \<open>A value that is an array of cart items, as the return type \<open>CartItem[]\<close> says.\<close>

fun is_cart_list :: "jsvalue \<Rightarrow> bool" where
  "is_cart_list (Items xs) = True"
| "is_cart_list Null = False"
| "is_cart_list (Bool b) = False"
| "is_cart_list (Num n) = False"
| "is_cart_list (Str s) = False"

text \<open>
  The invariant of the data model: every stored cart item has a quantity above 0 (so
  none has a quantity of 0 or less).
\<close>

definition quantities_positive :: "world \<Rightarrow> bool" where
  "quantities_positive w =
     list_all (\<lambda>item. js_gt (CartItem.quantity item) (num 0)) (stored_items w)"

text \<open>
  The sum the specification writes for the subtotal, in exact arithmetic: one term
  \<open>price * quantity\<close> per cart item, 0 for an item without a product. \<open>finite_value\<close>
  is the value of a finite double.
\<close>

fun finite_value :: "number \<Rightarrow> rat option" where
  "finite_value (Double (Fin x)) = Some x"
| "finite_value (Double PosInfinity) = None"
| "finite_value (Double NegInfinity) = None"
| "finite_value (Double NaN) = None"
| "finite_value NumNull = None"

definition value_of :: "number \<Rightarrow> rat" where
  "value_of n = (case finite_value n of Some x \<Rightarrow> x | None \<Rightarrow> 0)"

definition line_total :: "CartItem \<Rightarrow> rat" where
  "line_total item =
     (case product item of
        None \<Rightarrow> 0
      | Some p \<Rightarrow> value_of (Product.price p) * value_of (CartItem.quantity item))"

text \<open>A rational that is a double: rounding leaves it as it is.\<close>

definition representable :: "rat \<Rightarrow> bool" where
  "representable x = (round_double x = Fin x)"

text \<open>
  The carts on which the double arithmetic of the subtotal is exact: every price and
  quantity is a finite double, and every product and every partial sum, taken from
  \<open>s\<close> on, is a double.
\<close>

definition finite_item :: "CartItem \<Rightarrow> bool" where
  "finite_item item =
     (finite_value (CartItem.quantity item) \<noteq> None \<and>
      (case product item of
         None \<Rightarrow> True
       | Some p \<Rightarrow> finite_value (Product.price p) \<noteq> None))"

fun exact_steps :: "rat \<Rightarrow> CartItem list \<Rightarrow> bool" where
  "exact_steps s [] = True"
| "exact_steps s (item # rest) =
     (finite_item item \<and> representable (line_total item) \<and>
      representable (s + line_total item) \<and> exact_steps (s + line_total item) rest)"

text \<open>
  A catalog of two products, an empty cart, and an outside where every request and
  every local write succeeds.
\<close>

definition footwear :: Category where
  "footwear = \<lparr>Category.id = ''c1'', name = ''Footwear'', slug = ''footwear'', image_url = None\<rparr>"

definition shoes :: Product where
  "shoes =
     \<lparr>Product.id = ''p1'', name = ''Red Shoes'', price = num 300, original_price = None,
      discount_percent = None, images = [''shoes.png''], rating = None,
      reviews_count = None, category = None, category_id = Some ''c1'',
      description = None, stock = None, highlights = None, specifications = None\<rparr>"

definition hat :: Product where
  "hat =
     \<lparr>Product.id = ''p2'', name = ''Red Hat'', price = num 450, original_price = None,
      discount_percent = None, images = [], rating = None,
      reviews_count = None, category = None, category_id = None,
      description = None, stock = None, highlights = None, specifications = None\<rparr>"

definition shop :: world where
  "shop =
     \<lparr>slot = None, categories = [footwear], products = [shoes, hat], orders = [],
      order_items = [], notifications = []\<rparr>"

definition calm :: env where
  "calm =
     \<lparr>now = 1700000000000, setItem_ok = True, categories_ok = True, products_ok = True,
      product_ok = (\<lambda>pid. True), orders_ok = True, order_items_ok = True,
      new_order_id = ''o1'', new_created_at = ''2024-01-01T00:00:00Z'',
      new_item_id = (\<lambda>k. ''i'' @ toString k)\<rparr>"

definition buyer :: ShippingAddress where
  "buyer =
     \<lparr>ShippingAddress.name = ''Asha'', phone = ''9000000000'', address = ''1 Main Road'',
      city = ''Pune'', state = ''MH'', pincode = ''411001''\<rparr>"

definition by_card :: PaymentDetails where
  "by_card = \<lparr>pay_method = ''card'', status = ''paid'', transactionId = Some ''t1''\<rparr>"

text \<open>Cart items as \<open>addToCart\<close> stores them.\<close>

definition line :: "string \<Rightarrow> string \<Rightarrow> number \<Rightarrow> CartItem" where
  "line iid pid qty = \<lparr>CartItem.id = iid, product_id = pid, quantity = qty, product = None\<rparr>"

text \<open>A product whose price is the largest odd double, \<open>2^53 - 1\<close>.\<close>

definition gem :: Product where
  "gem = hat\<lparr>Product.id := ''p3'', Product.name := ''Gem'', Product.price := num 9007199254740991\<rparr>"

text \<open>The same outside with a browser that refuses every write to localStorage.\<close>

definition refusing :: env where
  "refusing = calm\<lparr>setItem_ok := False\<rparr>"

text \<open>A cart of three gems, stored and as \<open>getCartItems\<close> assembles it.\<close>

definition gem_cart :: world where
  "gem_cart = saveCartToStorage calm [line ''1'' ''p3'' (num 3)] (shop\<lparr>products := [gem]\<rparr>)"

definition gem_items :: "CartItem list" where
  "gem_items = [(line ''1'' ''p3'' (num 3))\<lparr>product := Some gem\<rparr>]"

text \<open>
  A cart as JSON holds it: every stored quantity is what \<open>JSON.parse\<close> can return (a
  finite double or \<open>null\<close>).
\<close>

definition json_cart :: "world \<Rightarrow> bool" where
  "json_cart w = list_all (\<lambda>item. json_item item = item) (stored_items w)"

text \<open>
  A finite double that is an integer, and an item with an integer quantity and, when
  it has a product, an integer price.
\<close>

definition is_integer :: "number \<Rightarrow> bool" where
  "is_integer n = (case finite_value n of Some x \<Rightarrow> of_int \<lfloor>x\<rfloor> = x | None \<Rightarrow> False)"

definition integer_item :: "CartItem \<Rightarrow> bool" where
  "integer_item item =
     (is_integer (CartItem.quantity item) \<and>
      (case product item of
         None \<Rightarrow> True
       | Some p \<Rightarrow> is_integer (Product.price p)))"

text \<open>
  A cart with prices in cents: three times 64.01 and once 307.97, the prices being the
  doubles nearest to these decimals.
\<close>

definition cents_items :: "CartItem list" where
  "cents_items =
     [(line ''1'' ''p1'' (num 3))\<lparr>product := Some (shoes\<lparr>Product.price := Double (round_double (6401 / 100))\<rparr>)\<rparr>,
      (line ''2'' ''p2'' (num 1))\<lparr>product := Some (hat\<lparr>Product.price := Double (round_double (30797 / 100))\<rparr>)\<rparr>]"

section \<open>Facts about numbers\<close>

lemma floor_numeral_divide [simp]:
  "\<lfloor>numeral a / numeral b :: rat\<rfloor> = numeral a div numeral b"
  using floor_divide_of_int_eq [of "numeral a" "numeral b", where ?'a = rat] by simp

lemma scale_up_le: "scale_up x e \<le> e"
proof (induction x e rule: scale_up.induct)
  case (1 x e)
  show ?case
  proof (cases "x < 2 ^ 52 \<and> - 1074 < e")
    case True
    with 1 have "scale_up (x * 2) (e - 1) \<le> e - 1" by simp
    moreover from True have "scale_up x e = scale_up (x * 2) (e - 1)"
      by (subst scale_up.simps) simp
    ultimately show ?thesis by simp
  next
    case False
    then have "scale_up x e = e"
      by (subst scale_up.simps) auto
    then show ?thesis by simp
  qed
qed

lemma round_half_even_of_int [simp]: "round_half_even (of_int n) = n"
  by (simp add: round_half_even_def)

lemma pow2_nonpos: "e \<le> 0 \<Longrightarrow> pow2 e = 1 / 2 ^ nat (- e)"
  by (cases "e = 0") (simp_all add: pow2_def)

lemma round_scaled_int:
  assumes "e \<le> 0"
  shows "of_int (round_half_even (of_int n / pow2 e)) * pow2 e = (of_int n :: rat)"
proof -
  define k where "k = nat (- e)"
  have p: "pow2 e = 1 / 2 ^ k"
    unfolding k_def by (rule pow2_nonpos [OF assms])
  have "of_int n / pow2 e = (of_int (n * 2 ^ k) :: rat)"
    by (simp add: p)
  then have "round_half_even (of_int n / pow2 e) = n * 2 ^ k"
    by (simp only: round_half_even_of_int)
  then show ?thesis by (simp add: p)
qed

lemma round_double_pos_int:
  assumes "0 < n" and "n \<le> 2 ^ 53"
  shows "round_double (of_int n) = Fin (of_int n)"
proof (cases "n = 2 ^ 53")
  case True
  have "exponent (2 ^ 53) = 1"
    by (simp add: exponent_def scale_down.simps)
  then have "round_double (2 ^ 53) = Fin (2 ^ 53)"
    by (simp add: round_double_def round_half_even_def pow2_def Let_def)
  with True show ?thesis by simp
next
  case False
  with assms(2) have "n < 2 ^ 53" by simp
  then have "(of_int n :: rat) < of_int (2 ^ 53)" by (simp only: of_int_less_iff)
  then have lt: "(of_int n :: rat) < 2 ^ 53" by simp
  then have e: "exponent (of_int n) = scale_up (of_int n) 0"
    by (simp add: exponent_def)
  have le: "scale_up (of_int n) 0 \<le> 0" by (rule scale_up_le)
  have "(2::rat) ^ 53 \<le> 2 ^ 1024" by (rule power_increasing) simp_all
  with lt have big: "\<not> (2::rat) ^ 1024 \<le> of_int n" by linarith
  from assms(1) have pos: "(0::rat) < of_int n" "(of_int n :: rat) \<noteq> 0"
      "\<bar>of_int n :: rat\<bar> = of_int n"
    by simp_all
  show ?thesis
    unfolding round_double_def Let_def pos(3) e round_scaled_int [OF le]
    using pos(1,2) big by (simp only: if_False if_True)
qed

lemma round_double_minus:
  assumes "round_double x = Fin v"
  shows "round_double (- x) = Fin (- v)"
proof (cases "x = 0")
  case True
  with assms show ?thesis by (simp add: round_double_def)
next
  case False
  then consider "0 < x" | "x < 0" by linarith
  then show ?thesis
  proof cases
    case 1
    with assms show ?thesis
      by (simp add: round_double_def Let_def split: if_splits)
  next
    case 2
    with assms show ?thesis
      by (simp add: round_double_def Let_def split: if_splits)
  qed
qed

text \<open>Every integer up to \<open>2^53\<close> in magnitude is a double.\<close>

lemma round_double_int:
  assumes "\<bar>n\<bar> \<le> 2 ^ 53"
  shows "round_double (of_int n) = Fin (of_int n)"
proof -
  consider "n = 0" | "0 < n" | "n < 0" by linarith
  then show ?thesis
  proof cases
    case 1
    then show ?thesis by (simp add: round_double_def)
  next
    case 2
    with assms show ?thesis by (intro round_double_pos_int) simp_all
  next
    case 3
    with assms have "round_double (of_int (- n)) = Fin (of_int (- n))"
      by (intro round_double_pos_int) simp_all
    from round_double_minus [OF this] show ?thesis by simp
  qed
qed

lemma representable_int: "\<bar>n\<bar> \<le> 2 ^ 53 \<Longrightarrow> representable (of_int n)"
  by (simp add: representable_def round_double_int)

lemma representable_0 [simp]: "representable 0"
  by (simp add: representable_def round_double_def)

lemma js_add_exact: "representable (x + y) \<Longrightarrow> js_add (num x) (num y) = num (x + y)"
  by (simp add: js_add_def representable_def)

lemma js_mul_exact: "representable (x * y) \<Longrightarrow> js_mul (num x) (num y) = num (x * y)"
  by (simp add: js_mul_def representable_def)

lemma finite_value_Some: "finite_value n = Some x \<longleftrightarrow> n = num x"
  by (cases n rule: finite_value.cases) auto

lemma json_number_idem [simp]: "json_number (json_number n) = json_number n"
  by (cases n rule: json_number.cases) simp_all

lemma json_item_idem [simp]: "json_item (json_item item) = json_item item"
  by (simp add: json_item_def)

lemma json_item_fields [simp]:
  "CartItem.id (json_item item) = CartItem.id item"
  "CartItem.product_id (json_item item) = CartItem.product_id item"
  "product (json_item item) = product item"
  "CartItem.quantity (json_item item) = json_number (CartItem.quantity item)"
  by (simp_all add: json_item_def)

lemma line_fields [simp]:
  "CartItem.id (line iid pid qty) = iid"
  "CartItem.product_id (line iid pid qty) = pid"
  "CartItem.quantity (line iid pid qty) = qty"
  "product (line iid pid qty) = None"
  by (simp_all add: line_def)

lemma json_item_line [simp]: "json_item (line iid pid qty) = line iid pid (json_number qty)"
  by (simp add: json_item_def line_def)

lemma round_double_numeral [simp]:
  "numeral k \<le> (2::int) ^ 53 \<Longrightarrow> round_double (numeral k) = Fin (numeral k)"
  using round_double_int [of "numeral k"] by simp

lemma round_double_neg_numeral [simp]:
  "numeral k \<le> (2::int) ^ 53 \<Longrightarrow> round_double (- numeral k) = Fin (- numeral k)"
  using round_double_int [of "- numeral k"] by simp

lemma round_double_0 [simp]: "round_double 0 = Fin 0"
  by (simp add: round_double_def)

lemma round_double_1 [simp]: "round_double 1 = Fin 1"
  using round_double_int [of 1] by simp

lemma round_double_neg_1 [simp]: "round_double (- 1) = Fin (- 1)"
  using round_double_int [of "- 1"] by simp

section \<open>Facts about the local cart store\<close>

lemma getCartFromStorage_save:
  "setItem_ok e \<Longrightarrow> getCartFromStorage (saveCartToStorage e cart w) = Items (map json_item cart)"
  by (simp add: getCartFromStorage_def getCartFromStorage_try_def saveCartToStorage_def)

lemma stored_items_save:
  "setItem_ok e \<Longrightarrow> stored_items (saveCartToStorage e cart w) = map json_item cart"
  by (simp add: stored_items_def getCartFromStorage_save)

lemma saveCartToStorage_refused: "\<not> setItem_ok e \<Longrightarrow> saveCartToStorage e cart w = w"
  by (simp add: saveCartToStorage_def)

lemma stored_items_Items: "getCartFromStorage w = Items cart \<Longrightarrow> stored_items w = cart"
  by (simp add: stored_items_def)

lemma stored_items_not_array:
  "array_of (getCartFromStorage w) = Inl err \<Longrightarrow> stored_items w = []"
  by (cases "getCartFromStorage w") (simp_all add: stored_items_def)

lemma stored_items_tables [simp]:
  "stored_items (w\<lparr>orders := os\<rparr>) = stored_items w"
  "stored_items (w\<lparr>world.order_items := is\<rparr>) = stored_items w"
  by (simp_all add: stored_items_def getCartFromStorage_def)

lemma save_save:
  "setItem_ok e \<Longrightarrow>
     saveCartToStorage e c (saveCartToStorage e' d w) = saveCartToStorage e c w"
  by (simp add: saveCartToStorage_def)

section \<open>Facts about the order workflow\<close>

lemma line_exact:
  assumes "finite_item item" and "representable (line_total item)"
  shows "js_mul (price_or_0 item) (CartItem.quantity item) = num (line_total item)"
proof -
  from assms(1) obtain b where q: "CartItem.quantity item = num b"
    by (auto simp: finite_item_def finite_value_Some)
  show ?thesis
  proof (cases "product item")
    case None
    with q show ?thesis
      by (simp add: price_or_0_def line_total_def js_mul_def)
  next
    case (Some p)
    with assms(1) obtain a where a: "Product.price p = num a"
      by (auto simp: finite_item_def finite_value_Some)
    with Some q have l: "line_total item = a * b"
      by (simp add: line_total_def value_of_def)
    from Some a have "price_or_0 item = num a"
      by (simp add: price_or_0_def)
    with q l assms(2) show ?thesis
      by (simp add: js_mul_exact)
  qed
qed

lemma foldl_exact:
  "exact_steps s items \<Longrightarrow>
     foldl (\<lambda>sum item. js_add sum (js_mul (price_or_0 item) (CartItem.quantity item)))
       (num s) items = num (s + sum_list (map line_total items))"
proof (induction items arbitrary: s)
  case Nil
  then show ?case by simp
next
  case (Cons item rest)
  then have "js_add (num s) (js_mul (price_or_0 item) (CartItem.quantity item)) =
      num (s + line_total item)"
    by (simp add: line_exact js_add_exact)
  with Cons show ?case by (simp add: add.assoc)
qed

lemma subtotal_new_order:
  "exact_steps 0 items \<Longrightarrow>
     Order.subtotal (new_order e a p items) = num (sum_list (map line_total items))"
  using foldl_exact [of 0 items] by (simp add: new_order_def Let_def)

lemma shipping_cost_new_order:
  "Order.shipping_cost (new_order e a p items) =
     (if js_gt (Order.subtotal (new_order e a p items)) (num 500) then num 0 else num 40)"
  by (simp add: new_order_def Let_def)




lemma getCartItems_Inr:
  "getCartItems e w = Inr items \<Longrightarrow>
     \<exists>cart. getCartFromStorage w = Items cart \<and> length cart = length items"
  by (cases "getCartFromStorage w") (auto simp: getCartItems_def)

lemma orders_clearCart: "orders (clearCart e w) = orders w"
  by (simp add: clearCart_def saveCartToStorage_def)

lemma orders_insert_order_items: "orders (insert_order_items e rows w) = orders w"
  by (simp add: insert_order_items_def)

text \<open>
  Past the guard: with an assembled cart that is not empty and an insert of the order
  that the server accepts, \<open>createOrder\<close> is its last three steps.
\<close>

lemma createOrder_steps:
  assumes "getCartItems e w = Inr items" and "items \<noteq> []" and "orders_ok e"
  shows "createOrder e a p w =
     (let order = new_order e a p items; w1 = w\<lparr>orders := orders w @ [order]\<rparr>
      in case orderItemsData (Order.id order) items of
           Inl err \<Rightarrow> (Inl err, w1)
         | Inr rows \<Rightarrow> (Inr order, clearCart e (insert_order_items e rows w1)))"
proof -
  from getCartItems_Inr [OF assms(1)] obtain cart
    where c: "getCartFromStorage w = Items cart" and l: "length cart = length items" by blast
  from l assms(2) have "length cart \<noteq> 0" by simp
  with c assms(1,3) show ?thesis
    by (simp add: createOrder_def getCartItemsFromStorage_def Let_def)
qed

lemma createOrder_writes:
  assumes "getCartItems e w = Inr items" and "items \<noteq> []" and "orders_ok e"
  shows "added_orders w (snd (createOrder e a p w)) = [new_order e a p items]"
  by (simp add: createOrder_steps [OF assms] Let_def added_orders_def orders_clearCart
        orders_insert_order_items split: sum.splits)

lemma createOrder_returns:
  assumes "getCartItems e w = Inr items" and "items \<noteq> []" and "orders_ok e"
    and "fst (createOrder e a p w) = Inr order"
  shows "order = new_order e a p items"
  using assms(4) by (simp add: createOrder_steps [OF assms(1-3)] Let_def split: sum.splits)

lemma orderItemsData_Inr_products:
  "orderItemsData oid items = Inr rows \<Longrightarrow> list_all (\<lambda>item. product item \<noteq> None) items"
  by (induction items arbitrary: rows) (auto split: option.splits sum.splits)

lemma orderItemsData_absent:
  "list_ex (\<lambda>item. product item = None) items \<Longrightarrow> orderItemsData oid items = Inl TypeError"
  by (induction items) (auto split: option.splits sum.splits)

text \<open>
  Integer prices and quantities whose products add up to at most \<open>2^53\<close> in magnitude:
  every step of the subtotal is exact.
\<close>

lemma is_integer_num: "is_integer n \<Longrightarrow> \<exists>k. n = num (of_int k)"
  by (cases n rule: finite_value.cases) (auto simp: is_integer_def intro: sym)

lemma integer_item_line:
  assumes "integer_item item"
  shows "finite_item item" and "\<exists>k. line_total item = of_int k"
proof -
  from assms obtain b where b: "CartItem.quantity item = num (of_int b)"
    by (auto simp: integer_item_def dest: is_integer_num)
  show "finite_item item"
    using assms b
    by (auto simp: integer_item_def finite_item_def split: option.splits dest: is_integer_num)
  show "\<exists>k. line_total item = of_int k"
  proof (cases "product item")
    case None
    then have "line_total item = of_int 0" by (simp add: line_total_def)
    then show ?thesis by blast
  next
    case (Some p)
    with assms obtain a where "Product.price p = num (of_int a)"
      by (auto simp: integer_item_def dest: is_integer_num)
    with Some b have "line_total item = of_int (a * b)"
      by (simp add: line_total_def value_of_def)
    then show ?thesis by blast
  qed
qed

lemma exact_steps_integers:
  assumes "list_all integer_item items"
    and "\<bar>of_int n\<bar> + (\<Sum>item\<leftarrow>items. \<bar>line_total item\<bar>) \<le> 2 ^ 53"
  shows "exact_steps (of_int n) items"
  using assms
proof (induction items arbitrary: n)
  case Nil
  then show ?case by simp
next
  case (Cons item rest)
  from Cons.prems(1) have it: "integer_item item" and r: "list_all integer_item rest"
    by simp_all
  from integer_item_line [OF it] obtain k where f: "finite_item item"
    and k: "line_total item = of_int k" by blast
  have nn: "0 \<le> (\<Sum>item\<leftarrow>rest. \<bar>line_total item\<bar>)"
    by (rule sum_list_nonneg) auto
  from Cons.prems(2) k nn have b1: "\<bar>(of_int n :: rat)\<bar> + \<bar>of_int k\<bar> \<le> 2 ^ 53"
    by simp
  then have "(of_int (\<bar>n\<bar> + \<bar>k\<bar>) :: rat) \<le> of_int (2 ^ 53)" by simp
  then have b: "\<bar>n\<bar> + \<bar>k\<bar> \<le> 2 ^ 53" by (simp only: of_int_le_iff)
  then have "\<bar>k\<bar> \<le> 2 ^ 53" and "\<bar>n + k\<bar> \<le> 2 ^ 53" by linarith+
  then have rk: "representable (of_int k)" and rs: "representable (of_int (n + k))"
    by (simp_all only: representable_int)
  have "\<bar>(of_int (n + k) :: rat)\<bar> \<le> \<bar>of_int n\<bar> + \<bar>of_int k\<bar>" by simp
  with Cons.prems(2) k have "\<bar>(of_int (n + k) :: rat)\<bar> + (\<Sum>item\<leftarrow>rest. \<bar>line_total item\<bar>) \<le> 2 ^ 53"
    by simp
  from Cons.IH [OF r this] have "exact_steps (of_int n + of_int k) rest" by simp
  with f k rk rs show ?case by simp
qed

text \<open>
  With cents the steps are not exact: \<open>64.01 * 3 + 307.97\<close> is 500 and the subtotal is
  \<open>500.00000000000006\<close>, above the threshold, so the shipping is free.
\<close>

lemma new_order_cents:
  "Order.subtotal (new_order e a p cents_items) = num (8796093022208001 / 17592186044416) \<and>
   Order.shipping_cost (new_order e a p cents_items) = num 0 \<and>
   (6401 / 100 * 3 + 30797 / 100 :: rat) = 500"
proof -
  have e1: "exponent (6401 / 100) = - 46"
    by (simp add: exponent_def scale_up.simps)
  have r1: "round_double (6401 / 100) = Fin (4504303314812273 / 70368744177664)"
    by (simp add: round_double_def e1 round_half_even_def pow2_def Let_def)
  have e2: "exponent (30797 / 100) = - 44"
    by (simp add: exponent_def scale_up.simps)
  have r2: "round_double (30797 / 100) = Fin (1354466384024699 / 4398046511104)"
    by (simp add: round_double_def e2 round_half_even_def pow2_def Let_def)
  have e3: "exponent (13512909944436819 / 70368744177664) = - 45"
    by (simp add: exponent_def scale_up.simps)
  have r3: "round_double (13512909944436819 / 70368744177664) =
      Fin (3378227486109205 / 17592186044416)"
    by (simp add: round_double_def e3 round_half_even_def pow2_def Let_def)
  have e4: "exponent (3378227486109205 / 17592186044416) = - 45"
    by (simp add: exponent_def scale_up.simps)
  have r4: "round_double (3378227486109205 / 17592186044416) =
      Fin (3378227486109205 / 17592186044416)"
    by (simp add: round_double_def e4 round_half_even_def pow2_def Let_def)
  have e5: "exponent (1354466384024699 / 4398046511104) = - 44"
    by (simp add: exponent_def scale_up.simps)
  have r5: "round_double (1354466384024699 / 4398046511104) =
      Fin (1354466384024699 / 4398046511104)"
    by (simp add: round_double_def e5 round_half_even_def pow2_def Let_def)
  have e6: "exponent (8796093022208001 / 17592186044416) = - 44"
    by (simp add: exponent_def scale_up.simps)
  have r6: "round_double (8796093022208001 / 17592186044416) =
      Fin (8796093022208001 / 17592186044416)"
    by (simp add: round_double_def e6 round_half_even_def pow2_def Let_def)
  have s: "Order.subtotal (new_order e a p cents_items) =
      num (8796093022208001 / 17592186044416)"
    by (simp add: new_order_def price_or_0_def cents_items_def shoes_def hat_def
          js_add_def js_mul_def r1 r2 r3 r4 r5 r6 Let_def)
  then show ?thesis
    by (simp add: shipping_cost_new_order js_gt_def)
qed

text \<open>The definitions a run on the small shop unfolds.\<close>

lemmas run_defs =
  createOrder_def getCartItemsFromStorage_def getCartFromStorage_def getCartFromStorage_try_def
  getCartItems_def getProduct_def with_category_def saveCartToStorage_def clearCart_def
  insert_order_items_def stored_row_def new_order_def price_or_0_def added_orders_def
  stored_items_def shop_def calm_def buyer_def by_card_def shoes_def hat_def footwear_def
  line_def json_item_def js_add_def js_mul_def js_gt_def Let_def

section \<open>Facts about the cart\<close>

lemma update_first_miss: "\<forall>x\<in>set xs. \<not> P x \<Longrightarrow> update_first P f xs = xs"
  by (induction xs) auto

lemma update_first_append_miss:
  "\<forall>x\<in>set xs. \<not> P x \<Longrightarrow> update_first P f (xs @ ys) = xs @ update_first P f ys"
  by (induction xs) auto

lemma map_update_first: "(\<And>x. g (f x) = g x) \<Longrightarrow> map g (update_first P f xs) = map g xs"
  by (induction xs) auto

lemma find_update_first:
  "find P xs = Some x \<Longrightarrow> P (f x) \<Longrightarrow> find P (update_first P f xs) = Some (f x)"
  by (induction xs) (auto split: if_splits)

lemma filter_update_first:
  "(\<And>x. P x \<Longrightarrow> P (f x)) \<Longrightarrow>
     filter (\<lambda>x. \<not> P x) (update_first P f xs) = filter (\<lambda>x. \<not> P x) xs"
  by (induction xs) auto

lemma update_first_all:
  "list_all Q xs \<Longrightarrow> (\<And>x. P x \<Longrightarrow> Q x \<Longrightarrow> Q (f x)) \<Longrightarrow> list_all Q (update_first P f xs)"
  by (induction xs) auto

lemma filter_update_first_distinct:
  "distinct (map k xs) \<Longrightarrow> (\<And>x. k (f x) = k x) \<Longrightarrow> find (\<lambda>x. k x = key) xs = Some x \<Longrightarrow>
     filter (\<lambda>x. k x = key) (update_first (\<lambda>x. k x = key) f xs) = [f x]"
proof (induction xs)
  case Nil
  then show ?case by simp
next
  case (Cons a xs)
  show ?case
  proof (cases "k a = key")
    case True
    from Cons.prems(1) have "k a \<notin> k ` set xs" by simp
    with True have "\<forall>y\<in>set xs. k y \<noteq> key" by blast
    then have "filter (\<lambda>x. k x = key) xs = []" by (simp add: filter_empty_conv)
    with True Cons.prems show ?thesis by simp
  next
    case False
    with Cons show ?thesis by simp
  qed
qed

lemma find_map_same:
  "(\<And>x. P (g x) = P x) \<Longrightarrow> find P (map g xs) = map_option g (find P xs)"
  by (induction xs) auto

lemma filter_map_same:
  "(\<And>x. P (g x) = P x) \<Longrightarrow> filter P (map g xs) = map g (filter P xs)"
  by (induction xs) auto

lemma find_append_new:
  "find P xs = None \<Longrightarrow> P y \<Longrightarrow> find P (xs @ [y]) = Some y"
  by (induction xs) (auto split: if_splits)

text \<open>
  Writing a changed cart back twice gives what writing it once gives: the change
  overwrites what JSON made of the first.
\<close>

lemma json_update_first_twice:
  assumes "\<And>x. P (json_item x) = P x" and "\<And>x. P x \<Longrightarrow> P (f x)"
    and "\<And>x. json_item (f (json_item (f x))) = json_item (f x)"
  shows "map json_item (update_first P f (map json_item (update_first P f xs))) =
         map json_item (update_first P f xs)"
  by (induction xs) (simp_all add: assms)

subsection \<open>\<open>addToCart\<close>\<close>

lemma addToCart_world:
  assumes "getCartFromStorage w = Items cart"
  shows "snd (addToCart e productId qty w) =
     saveCartToStorage e
       (case find (\<lambda>item. CartItem.product_id item = productId) cart of
          Some existingItem \<Rightarrow>
            update_first (\<lambda>item. CartItem.product_id item = productId)
              (\<lambda>item. item\<lparr>CartItem.quantity := js_add (CartItem.quantity item) qty\<rparr>) cart
        | None \<Rightarrow> cart @ [line (toString (now e)) productId qty]) w"
  using assms by (simp add: addToCart_def Let_def line_def split: option.splits)

lemma addToCart_not_array:
  "array_of (getCartFromStorage w) = Inl err \<Longrightarrow> addToCart e productId qty w = (Inl err, w)"
  by (simp add: addToCart_def)

lemma addToCart_refused:
  "\<not> setItem_ok e \<Longrightarrow> snd (addToCart e productId qty w) = w"
  by (cases "getCartFromStorage w")
    (simp_all add: addToCart_def Let_def saveCartToStorage_refused)

lemma addToCart_new:
  assumes "getCartFromStorage w = Items cart"
    and "\<forall>item\<in>set cart. CartItem.product_id item \<noteq> productId"
  shows "snd (addToCart e productId qty w) =
           saveCartToStorage e (cart @ [line (toString (now e)) productId qty]) w"
proof -
  from assms(2) have "find (\<lambda>item. CartItem.product_id item = productId) cart = None"
    by (simp add: find_None_iff)
  then show ?thesis by (simp add: addToCart_world [OF assms(1)])
qed

lemma addToCart_existing:
  assumes "getCartFromStorage w = Items cart"
    and "find (\<lambda>item. CartItem.product_id item = productId) cart = Some existingItem"
  shows "snd (addToCart e productId qty w) =
           saveCartToStorage e
             (update_first (\<lambda>item. CartItem.product_id item = productId)
                (\<lambda>item. item\<lparr>CartItem.quantity := js_add (CartItem.quantity item) qty\<rparr>) cart) w"
  using assms(2) by (simp add: addToCart_world [OF assms(1)])

lemma addToCart_distinct:
  assumes "distinct (map CartItem.product_id (stored_items w))"
  shows "distinct (map CartItem.product_id (stored_items (snd (addToCart e productId qty w))))"
proof (cases "setItem_ok e")
  case False
  with assms show ?thesis by (simp add: addToCart_refused)
next
  case ok: True
  show ?thesis
  proof (cases "getCartFromStorage w")
    case (Items cart)
    then have d: "distinct (map CartItem.product_id cart)"
      using assms by (simp add: stored_items_def)
    have j: "map CartItem.product_id (map json_item xs) = map CartItem.product_id xs" for xs
      by (induction xs) simp_all
    show ?thesis
    proof (cases "find (\<lambda>item. CartItem.product_id item = productId) cart")
      case None
      then have "\<forall>item\<in>set cart. CartItem.product_id item \<noteq> productId"
        by (simp add: find_None_iff)
      with d have "distinct (map CartItem.product_id
          (cart @ [line (toString (now e)) productId qty]))"
        by auto
      then show ?thesis
        by (simp only: addToCart_new [OF Items \<open>\<forall>item\<in>set cart. CartItem.product_id item \<noteq> productId\<close>]
              stored_items_save [OF ok] j)
    next
      case (Some existingItem)
      with d show ?thesis
        by (simp add: addToCart_existing [OF Items Some] stored_items_save [OF ok] j
              map_update_first del: map_map)
    qed
  qed (use assms in \<open>simp_all add: addToCart_not_array\<close>)
qed

subsection \<open>\<open>updateCartItemQuantity\<close>\<close>

lemma updateCartItemQuantity_not_array:
  "array_of (getCartFromStorage w) = Inl err \<Longrightarrow>
     updateCartItemQuantity e itemId qty w = (Inl err, w)"
  by (simp add: updateCartItemQuantity_def)

lemma updateCartItemQuantity_refused:
  "\<not> setItem_ok e \<Longrightarrow> snd (updateCartItemQuantity e itemId qty w) = w"
  by (cases "getCartFromStorage w")
    (simp_all add: updateCartItemQuantity_def Let_def saveCartToStorage_refused
       split: option.splits)

lemma updateCartItemQuantity_missing:
  assumes "getCartFromStorage w = Items cart"
    and "find (\<lambda>i. CartItem.id i = itemId) cart = None"
  shows "snd (updateCartItemQuantity e itemId qty w) = w"
  using assms by (simp add: updateCartItemQuantity_def Let_def)

lemma updateCartItemQuantity_remove:
  assumes "getCartFromStorage w = Items cart"
    and "find (\<lambda>i. CartItem.id i = itemId) cart = Some item" and "js_le qty (num 0)"
  shows "snd (updateCartItemQuantity e itemId qty w) =
           saveCartToStorage e (filter (\<lambda>i. CartItem.id i \<noteq> itemId) cart) w"
  using assms by (simp add: updateCartItemQuantity_def Let_def)

lemma updateCartItemQuantity_set:
  assumes "getCartFromStorage w = Items cart"
    and "find (\<lambda>i. CartItem.id i = itemId) cart = Some item" and "\<not> js_le qty (num 0)"
  shows "snd (updateCartItemQuantity e itemId qty w) =
           saveCartToStorage e
             (update_first (\<lambda>i. CartItem.id i = itemId)
                (\<lambda>i. i\<lparr>CartItem.quantity := qty\<rparr>) cart) w"
  using assms by (simp add: updateCartItemQuantity_def Let_def)

lemma js_gt_not_le: "js_gt a b \<Longrightarrow> \<not> js_le a b"
  by (simp add: js_le_def js_gt_def)

lemma json_item_set_quantity [simp]:
  "json_item (item\<lparr>CartItem.quantity := qty\<rparr>) = item\<lparr>CartItem.quantity := json_number qty\<rparr>"
  by (simp add: json_item_def)

lemma updateCartItemQuantity_removes:
  assumes "setItem_ok e" and "js_le qty (num 0)"
  shows "list_all (\<lambda>i. CartItem.id i \<noteq> itemId)
           (stored_items (snd (updateCartItemQuantity e itemId qty w)))"
proof (cases "getCartFromStorage w")
  case (Items cart)
  show ?thesis
  proof (cases "find (\<lambda>i. CartItem.id i = itemId) cart")
    case None
    then have "list_all (\<lambda>i. CartItem.id i \<noteq> itemId) cart"
      by (simp add: find_None_iff list_all_iff)
    then show ?thesis
      by (simp add: updateCartItemQuantity_missing [OF Items None] stored_items_Items [OF Items])
  next
    case (Some item)
    show ?thesis
      by (simp add: updateCartItemQuantity_remove [OF Items Some assms(2)]
            stored_items_save [OF assms(1)] list_all_iff)
  qed
qed (simp_all add: updateCartItemQuantity_not_array stored_items_def)

lemma updateCartItemQuantity_sets:
  assumes "setItem_ok e" and "js_gt qty (num 0)"
    and "find (\<lambda>i. CartItem.id i = itemId) (stored_items w) = Some item"
  shows "find (\<lambda>i. CartItem.id i = itemId)
           (stored_items (snd (updateCartItemQuantity e itemId qty w))) =
         Some (item\<lparr>CartItem.quantity := json_number qty\<rparr>)"
    and "distinct (map CartItem.id (stored_items w)) \<Longrightarrow>
         filter (\<lambda>i. CartItem.id i = itemId)
           (stored_items (snd (updateCartItemQuantity e itemId qty w))) =
         [item\<lparr>CartItem.quantity := json_number qty\<rparr>]"
proof -
  let ?P = "\<lambda>i. CartItem.id i = itemId"
  let ?f = "\<lambda>i. i\<lparr>CartItem.quantity := qty\<rparr>"
  from assms(3) obtain cart where c: "getCartFromStorage w = Items cart"
    by (cases "getCartFromStorage w") (simp_all add: stored_items_def)
  with assms(3) have f: "find ?P cart = Some item"
    by (simp add: stored_items_def)
  then have i: "CartItem.id item = itemId"
    by (auto simp: find_Some_iff)
  have st: "stored_items (snd (updateCartItemQuantity e itemId qty w)) =
      map json_item (update_first ?P ?f cart)"
    by (simp add: updateCartItemQuantity_set [OF c f js_gt_not_le [OF assms(2)]]
          stored_items_save [OF assms(1)])
  have f': "find ?P (update_first ?P ?f cart) = Some (?f item)"
    using find_update_first [OF f, of ?f] i by simp
  show "find ?P (stored_items (snd (updateCartItemQuantity e itemId qty w))) =
         Some (item\<lparr>CartItem.quantity := json_number qty\<rparr>)"
    by (simp add: st find_map_same f')
  show "filter ?P (stored_items (snd (updateCartItemQuantity e itemId qty w))) =
         [item\<lparr>CartItem.quantity := json_number qty\<rparr>]"
    if "distinct (map CartItem.id (stored_items w))"
    using that filter_update_first_distinct [of CartItem.id cart ?f itemId item] f
    by (simp add: st filter_map_same stored_items_Items [OF c])
qed

lemma updateCartItemQuantity_others:
  "map json_item (filter (\<lambda>i. CartItem.id i \<noteq> itemId)
     (stored_items (snd (updateCartItemQuantity e itemId qty w)))) =
   map json_item (filter (\<lambda>i. CartItem.id i \<noteq> itemId) (stored_items w))"
proof (cases "setItem_ok e")
  case False
  then show ?thesis by (simp add: updateCartItemQuantity_refused)
next
  case ok: True
  show ?thesis
  proof (cases "getCartFromStorage w")
    case (Items cart)
    show ?thesis
    proof (cases "find (\<lambda>i. CartItem.id i = itemId) cart")
      case None
      then show ?thesis by (simp add: updateCartItemQuantity_missing [OF Items None])
    next
      case (Some item)
      show ?thesis
      proof (cases "js_le qty (num 0)")
        case True
        then show ?thesis
          by (simp add: updateCartItemQuantity_remove [OF Items Some] stored_items_save [OF ok]
                stored_items_Items [OF Items] filter_map_same)
      next
        case False
        then show ?thesis
          using filter_update_first [of "\<lambda>i. CartItem.id i = itemId"
              "\<lambda>i. i\<lparr>CartItem.quantity := qty\<rparr>" cart]
          by (simp add: updateCartItemQuantity_set [OF Items Some] stored_items_save [OF ok]
                stored_items_Items [OF Items] filter_map_same)
      qed
    qed
  qed (simp_all add: updateCartItemQuantity_not_array)
qed

lemma updateCartItemQuantity_idem:
  assumes "setItem_ok e"
  shows "snd (updateCartItemQuantity e' itemId qty (snd (updateCartItemQuantity e itemId qty w))) =
         snd (updateCartItemQuantity e itemId qty w)"
proof (cases "getCartFromStorage w")
  case (Items cart)
  let ?P = "\<lambda>i. CartItem.id i = itemId"
  show ?thesis
  proof (cases "find ?P cart")
    case None
    then show ?thesis by (simp add: updateCartItemQuantity_missing [OF Items None])
  next
    case (Some item)
    then have i: "CartItem.id item = itemId" by (auto simp: find_Some_iff)
    show ?thesis
    proof (cases "js_le qty (num 0)")
      case True
      let ?left = "map json_item (filter (\<lambda>i. CartItem.id i \<noteq> itemId) cart)"
      have "snd (updateCartItemQuantity e' itemId qty
                  (saveCartToStorage e (filter (\<lambda>i. CartItem.id i \<noteq> itemId) cart) w)) =
            saveCartToStorage e (filter (\<lambda>i. CartItem.id i \<noteq> itemId) cart) w"
        by (rule updateCartItemQuantity_missing [where cart = ?left])
          (simp_all add: getCartFromStorage_save [OF assms] find_None_iff)
      then show ?thesis
        by (simp add: updateCartItemQuantity_remove [OF Items Some True])
    next
      case False
      let ?f = "\<lambda>i. i\<lparr>CartItem.quantity := qty\<rparr>"
      let ?once = "map json_item (update_first ?P ?f cart)"
      have c1: "getCartFromStorage (saveCartToStorage e (update_first ?P ?f cart) w) = Items ?once"
        by (rule getCartFromStorage_save [OF assms])
      have "find ?P (update_first ?P ?f cart) = Some (?f item)"
        using find_update_first [OF Some, of ?f] i by simp
      then have f': "find ?P ?once = Some (json_item (?f item))"
        by (simp add: find_map_same)
      have twice: "map json_item (update_first ?P ?f ?once) = ?once"
        by (rule json_update_first_twice) simp_all
      show ?thesis
      proof (cases "setItem_ok e'")
        case True
        have "snd (updateCartItemQuantity e' itemId qty
                    (saveCartToStorage e (update_first ?P ?f cart) w)) =
              saveCartToStorage e' (update_first ?P ?f ?once)
                (saveCartToStorage e (update_first ?P ?f cart) w)"
          by (rule updateCartItemQuantity_set [OF c1 f' False])
        also have "\<dots> = saveCartToStorage e (update_first ?P ?f cart) w"
          using True assms twice by (simp add: saveCartToStorage_def)
        finally show ?thesis
          by (simp add: updateCartItemQuantity_set [OF Items Some False])
      next
        case False
        then show ?thesis by (simp add: updateCartItemQuantity_refused)
      qed
    qed
  qed
qed (simp_all add: updateCartItemQuantity_not_array)

subsection \<open>The quantity invariant\<close>

lemma quantities_positive_save:
  "setItem_ok e \<Longrightarrow>
     quantities_positive (saveCartToStorage e cart w) =
       list_all (\<lambda>item. js_gt (json_number (CartItem.quantity item)) (num 0)) cart"
  by (simp add: quantities_positive_def stored_items_save list_all_iff)

lemma quantities_positive_Items:
  "getCartFromStorage w = Items cart \<Longrightarrow>
     quantities_positive w = list_all (\<lambda>item. js_gt (CartItem.quantity item) (num 0)) cart"
  by (simp add: quantities_positive_def stored_items_def)

lemma js_gt_json: "js_gt (json_number n) (num 0) \<Longrightarrow> js_gt n (num 0)"
  by (cases n rule: json_number.cases) (simp_all add: js_gt_def)

lemma updateCartItemQuantity_keeps_positive:
  assumes "quantities_positive w" and "json_cart w" and "qty = num q"
  shows "quantities_positive (snd (updateCartItemQuantity e itemId qty w))"
proof (cases "setItem_ok e")
  case False
  with assms(1) show ?thesis by (simp add: updateCartItemQuantity_refused)
next
  case ok: True
  show ?thesis
  proof (cases "getCartFromStorage w")
    case (Items cart)
    with assms(1) have p: "list_all (\<lambda>item. js_gt (CartItem.quantity item) (num 0)) cart"
      by (simp add: quantities_positive_Items)
    from Items assms(2) have j: "list_all (\<lambda>item. json_item item = item) cart"
      by (simp add: json_cart_def stored_items_def)
    from p j have pj: "list_all (\<lambda>item. js_gt (json_number (CartItem.quantity item)) (num 0)) cart"
      by (auto simp: list_all_iff json_item_def) (metis json_item_fields(4) json_item_def)
    show ?thesis
    proof (cases "find (\<lambda>i. CartItem.id i = itemId) cart")
      case None
      with assms(1) show ?thesis by (simp add: updateCartItemQuantity_missing [OF Items None])
    next
      case (Some item)
      show ?thesis
      proof (cases "js_le qty (num 0)")
        case True
        with pj show ?thesis
          by (simp add: updateCartItemQuantity_remove [OF Items Some]
                quantities_positive_save [OF ok] list_all_iff)
      next
        case False
        with assms(3) have q: "js_gt (json_number qty) (num 0)"
          by (simp add: js_le_def js_gt_def)
        from pj have "list_all (\<lambda>item. js_gt (json_number (CartItem.quantity item)) (num 0))
            (update_first (\<lambda>i. CartItem.id i = itemId) (\<lambda>i. i\<lparr>CartItem.quantity := qty\<rparr>) cart)"
          by (rule update_first_all) (use q in simp)
        then show ?thesis
          by (simp add: updateCartItemQuantity_set [OF Items Some False]
                quantities_positive_save [OF ok])
      qed
    qed
  qed (use assms in \<open>simp_all add: updateCartItemQuantity_not_array\<close>)
qed

lemma removeFromCart_keeps_positive:
  assumes "quantities_positive w" and "json_cart w"
  shows "quantities_positive (snd (removeFromCart e itemId w))"
proof (cases "getCartFromStorage w")
  case (Items cart)
  from Items assms(2) have j: "\<forall>item\<in>set cart. json_item item = item"
    by (simp add: json_cart_def stored_items_def list_all_iff)
  then have "map json_item (filter (\<lambda>i. CartItem.id i \<noteq> itemId) cart) =
      filter (\<lambda>i. CartItem.id i \<noteq> itemId) cart"
    by (intro map_idI) simp
  with Items assms(1) show ?thesis
    by (simp add: removeFromCart_def Let_def quantities_positive_def stored_items_def
          saveCartToStorage_def getCartFromStorage_def getCartFromStorage_try_def list_all_iff)
qed (use assms in \<open>simp_all add: removeFromCart_def\<close>)

lemma clearCart_keeps_positive:
  "quantities_positive w \<Longrightarrow> quantities_positive (clearCart e w)"
  by (simp add: clearCart_def saveCartToStorage_def quantities_positive_def stored_items_def
        getCartFromStorage_def getCartFromStorage_try_def)

text \<open>
  \<open>addToCart\<close> keeps the invariant when it appends an item with a positive finite
  quantity.
\<close>

lemma addToCart_new_keeps_positive:
  assumes "quantities_positive w" and "json_cart w" and "0 < q"
    and "getCartFromStorage w = Items cart"
    and "\<forall>item\<in>set cart. CartItem.product_id item \<noteq> productId"
  shows "quantities_positive (snd (addToCart e productId (num q) w))"
proof (cases "setItem_ok e")
  case False
  with assms(1) show ?thesis by (simp add: addToCart_refused)
next
  case ok: True
  from assms(1,4) have p: "list_all (\<lambda>item. js_gt (CartItem.quantity item) (num 0)) cart"
    by (simp add: quantities_positive_Items)
  from assms(2,4) have j: "\<forall>item\<in>set cart. json_item item = item"
    by (simp add: json_cart_def stored_items_def list_all_iff)
  then have "map json_item cart = cart" by (intro map_idI) simp
  with p assms(3) show ?thesis
    by (simp add: addToCart_new [OF assms(4,5)] quantities_positive_def
          stored_items_save [OF ok] js_gt_def)
qed

section \<open>The claims\<close>

text \<open>
  C1. When the cart read from the slot is empty, \<open>createOrder\<close> raises
  \<open>Error("Cart is empty")\<close> for every shipping address and payment details, and the
  world it leaves is the world it found: no order row, no order-item row, no
  notification row, and the slot as it was.
\<close>

theorem createOrder_empty_cart:
  assumes "getCartFromStorage w = Items []"
  shows "createOrder e a p w = (Inl (Error ''Cart is empty''), w)"
  using assms by (simp add: createOrder_def getCartItemsFromStorage_def)

text \<open>An absent key and a stored \<open>[]\<close> are both an empty cart.\<close>

theorem createOrder_empty_cart_witness:
  "getCartFromStorage shop = Items [] \<and>
   getCartFromStorage (saveCartToStorage calm [] shop) = Items [] \<and>
   createOrder calm buyer by_card shop = (Inl (Error ''Cart is empty''), shop) \<and>
   createOrder calm buyer by_card (saveCartToStorage calm [] shop) =
     (Inl (Error ''Cart is empty''), saveCartToStorage calm [] shop)"
proof -
  have a: "getCartFromStorage shop = Items []"
    by (simp add: getCartFromStorage_def getCartFromStorage_try_def shop_def)
  have b: "getCartFromStorage (saveCartToStorage calm [] shop) = Items []"
    by (simp add: getCartFromStorage_save calm_def)
  show ?thesis
    using a b createOrder_empty_cart [OF a, of calm buyer by_card]
      createOrder_empty_cart [OF b, of calm buyer by_card]
    by simp
qed



text \<open>
  C3, as the claim states it, fails: the subtotal is a sum of doubles. Three gems at
  \<open>2^53 - 1\<close> make \<open>27021597764222973\<close>; the product is rounded to the nearest double
  and the order row says \<open>27021597764222972\<close>.
\<close>

theorem createOrder_subtotal_rounds_counterexample:
  "getCartItems calm gem_cart = Inr gem_items \<and>
   map Order.subtotal (added_orders gem_cart (snd (createOrder calm buyer by_card gem_cart))) =
     [num 27021597764222972] \<and>
   sum_list (map line_total gem_items) = 27021597764222973"
proof -
  have ok: "orders_ok calm" and s: "setItem_ok calm" by (simp_all add: calm_def)
  have g: "getCartItems calm gem_cart = Inr gem_items"
    by (simp add: gem_cart_def gem_items_def getCartItems_def getCartFromStorage_save [OF s])
      (simp add: getProduct_def with_category_def saveCartToStorage_def calm_def shop_def
         gem_def hat_def line_def)
  have n: "gem_items \<noteq> []" by (simp add: gem_items_def)
  have e1: "exponent 27021597764222973 = 2"
    by (simp add: exponent_def scale_down.simps)
  have r1: "round_double 27021597764222973 = Fin 27021597764222972"
    by (simp add: round_double_def e1 round_half_even_def pow2_def Let_def)
  have e2: "exponent 27021597764222972 = 2"
    by (simp add: exponent_def scale_down.simps)
  have r2: "round_double 27021597764222972 = Fin 27021597764222972"
    by (simp add: round_double_def e2 round_half_even_def pow2_def Let_def)
  have st: "Order.subtotal (new_order calm buyer by_card gem_items) = num 27021597764222972"
    by (simp add: new_order_def price_or_0_def gem_items_def gem_def hat_def line_def
          js_add_def js_mul_def r1 r2 Let_def)
  have l: "sum_list (map line_total gem_items) = 27021597764222973"
    by (simp add: gem_items_def line_total_def value_of_def gem_def hat_def line_def)
  from createOrder_writes [OF g n ok, of buyer by_card] g st l show ?thesis by simp
qed

text \<open>
  C3, amended. For every cart that is not empty (and an insert of the order that the
  server accepts) on which the double arithmetic is exact, the \<open>subtotal\<close> of the order
  row \<open>createOrder\<close> writes is the sum, over the assembled cart items, of
  \<open>product.price * quantity\<close> (\<open>line_total\<close>; an item whose product is absent adds
  0). The arithmetic is exact when the prices and quantities are finite and every
  product and every partial sum is a double (\<open>exact_steps\<close>), and so when they are
  integers whose products add up to at most \<open>2^53\<close> in magnitude. In a run that
  returns, every assembled item has its product, and the returned order is that row.
\<close>

theorem createOrder_subtotal:
  assumes "getCartItems e w = Inr items" and "items \<noteq> []" and "orders_ok e"
    and "exact_steps 0 items \<or>
         (list_all integer_item items \<and> (\<Sum>item\<leftarrow>items. \<bar>line_total item\<bar>) \<le> 2 ^ 53)"
  shows "let order = new_order e a p items
         in added_orders w (snd (createOrder e a p w)) = [order] \<and>
            Order.subtotal order = num (\<Sum>item\<leftarrow>items. line_total item) \<and>
            (\<forall>r. fst (createOrder e a p w) = Inr r \<longrightarrow>
               r = order \<and> list_all (\<lambda>item. product item \<noteq> None) items)"
proof -
  from assms(4) have x: "exact_steps 0 items"
    using exact_steps_integers [of items 0] by auto
  have "list_all (\<lambda>item. product item \<noteq> None) items"
    if "fst (createOrder e a p w) = Inr r" for r
    using that
    by (auto simp: createOrder_steps [OF assms(1-3)] Let_def
          split: sum.splits dest: orderItemsData_Inr_products)
  then show ?thesis
    using createOrder_writes [OF assms(1-3), of a p] createOrder_returns [OF assms(1-3), of a p]
    by (simp add: Let_def subtotal_new_order [OF x])
qed

text \<open>Two pairs of shoes at 300 and three hats at 450.\<close>

theorem createOrder_subtotal_witness:
  "map Order.subtotal
     (added_orders (saveCartToStorage calm [line ''1'' ''p1'' (num 2), line ''2'' ''p2'' (num 3)] shop)
        (snd (createOrder calm buyer by_card
                (saveCartToStorage calm [line ''1'' ''p1'' (num 2), line ''2'' ''p2'' (num 3)] shop))))
     = [num (300 * 2 + 450 * 3)]"
proof -
  let ?w = "saveCartToStorage calm [line ''1'' ''p1'' (num 2), line ''2'' ''p2'' (num 3)] shop"
  let ?items = "[(line ''1'' ''p1'' (num 2))\<lparr>product := Some (shoes\<lparr>category := Some footwear\<rparr>)\<rparr>,
                 (line ''2'' ''p2'' (num 3))\<lparr>product := Some hat\<rparr>]"
  have ok: "orders_ok calm" and s: "setItem_ok calm" by (simp_all add: calm_def)
  have p1: "getProduct calm ''p1'' ?w = Some (shoes\<lparr>category := Some footwear\<rparr>)"
    by (simp add: getProduct_def with_category_def saveCartToStorage_def calm_def shop_def
          shoes_def hat_def footwear_def)
  have p2: "getProduct calm ''p2'' ?w = Some hat"
    by (simp add: getProduct_def with_category_def saveCartToStorage_def calm_def shop_def
          shoes_def hat_def footwear_def)
  have g: "getCartItems calm ?w = Inr ?items"
    by (simp add: getCartItems_def getCartFromStorage_save [OF s] p1 p2)
  have n: "?items \<noteq> []" by simp
  have l: "map line_total ?items = [300 * 2, 450 * 3]"
    by (simp add: line_total_def value_of_def shoes_def hat_def)
  have x: "exact_steps 0 ?items"
    using l by (simp add: finite_item_def shoes_def hat_def representable_def)
  have i: "list_all integer_item ?items \<and> (\<Sum>item\<leftarrow>?items. \<bar>line_total item\<bar>) \<le> 2 ^ 53"
    using l by (simp add: integer_item_def is_integer_def shoes_def hat_def)
  show ?thesis
    using createOrder_subtotal [OF g n ok disjI1 [OF x], of buyer by_card]
      createOrder_subtotal [OF g n ok disjI2 [OF i], of buyer by_card] l
    by (simp add: Let_def)
qed

text \<open>
  C4, as the claim states it, fails: when \<open>setItem\<close> throws, \<open>saveCartToStorage\<close> logs
  the error and goes on, so \<open>createOrder\<close> returns the order and the cart is still in
  the slot.
\<close>

theorem createOrder_refused_write_counterexample:
  "fst (createOrder refusing buyer by_card (saveCartToStorage calm [line ''1'' ''p1'' (num 2)] shop)) =
     Inr (new_order refusing buyer by_card
            [(line ''1'' ''p1'' (num 2))\<lparr>product := Some (shoes\<lparr>category := Some footwear\<rparr>)\<rparr>]) \<and>
   stored_items (snd (createOrder refusing buyer by_card
       (saveCartToStorage calm [line ''1'' ''p1'' (num 2)] shop))) =
     [line ''1'' ''p1'' (num 2)]"
proof -
  let ?w = "saveCartToStorage calm [line ''1'' ''p1'' (num 2)] shop"
  let ?items = "[(line ''1'' ''p1'' (num 2))\<lparr>product := Some (shoes\<lparr>category := Some footwear\<rparr>)\<rparr>]"
  have ok: "setItem_ok calm" and no: "\<not> setItem_ok refusing" and oo: "orders_ok refusing"
    by (simp_all add: calm_def refusing_def)
  have p: "getProduct refusing ''p1'' ?w = Some (shoes\<lparr>category := Some footwear\<rparr>)"
    by (simp add: getProduct_def with_category_def saveCartToStorage_def calm_def refusing_def
          shop_def shoes_def hat_def footwear_def)
  have g: "getCartItems refusing ?w = Inr ?items"
    by (simp add: getCartItems_def getCartFromStorage_save [OF ok] p)
  have n: "?items \<noteq> []" by simp
  have c: "stored_items ?w = [line ''1'' ''p1'' (num 2)]"
    by (simp add: stored_items_save [OF ok])
  show ?thesis
    by (simp add: createOrder_steps [OF g n oo] Let_def clearCart_def
          saveCartToStorage_refused [OF no] insert_order_items_def c)
qed

text \<open>
  C4, amended. After every run of \<open>createOrder\<close> that returns an order, the slot holds
  the empty list when the browser accepts the write of \<open>clearCart\<close>, and is as it was
  when the write is refused. Nothing is asked of the insert into \<open>order_items\<close>: the
  cart is cleared whether those rows were written or the write failed.
\<close>

theorem createOrder_clears_cart:
  assumes "fst (createOrder e a p w) = Inr order"
  shows "(setItem_ok e \<longrightarrow>
            slot (snd (createOrder e a p w)) = Some (Encodes (Items [])) \<and>
            stored_items (snd (createOrder e a p w)) = []) \<and>
         (\<not> setItem_ok e \<longrightarrow> slot (snd (createOrder e a p w)) = slot w)"
  using assms
  by (auto simp: createOrder_def clearCart_def saveCartToStorage_def stored_items_def
        getCartFromStorage_def getCartFromStorage_try_def insert_order_items_def Let_def
      split: sum.splits if_splits)

text \<open>The same cart twice: once the order item is written, once its insert fails.\<close>

theorem createOrder_clears_cart_witness:
  "stored_items (snd (createOrder calm buyer by_card
       (saveCartToStorage calm [line ''1'' ''p1'' (num 2)] shop))) = [] \<and>
   length (world.order_items (snd (createOrder calm buyer by_card
       (saveCartToStorage calm [line ''1'' ''p1'' (num 2)] shop)))) = 1 \<and>
   stored_items (snd (createOrder (calm\<lparr>order_items_ok := False\<rparr>) buyer by_card
       (saveCartToStorage calm [line ''1'' ''p1'' (num 2)] shop))) = [] \<and>
   world.order_items (snd (createOrder (calm\<lparr>order_items_ok := False\<rparr>) buyer by_card
       (saveCartToStorage calm [line ''1'' ''p1'' (num 2)] shop))) = []"
proof -
  let ?w = "saveCartToStorage calm [line ''1'' ''p1'' (num 2)] shop"
  let ?e = "calm\<lparr>order_items_ok := False\<rparr>"
  let ?items = "[(line ''1'' ''p1'' (num 2))\<lparr>product := Some (shoes\<lparr>category := Some footwear\<rparr>)\<rparr>]"
  have ok: "setItem_ok calm" "setItem_ok ?e" "orders_ok calm" "orders_ok ?e"
      "order_items_ok calm" "\<not> order_items_ok ?e"
    by (simp_all add: calm_def)
  have oc: "world.order_items (clearCart e' v) = world.order_items v" for e' v
    by (simp add: clearCart_def saveCartToStorage_def)
  have p1: "getProduct calm ''p1'' ?w = Some (shoes\<lparr>category := Some footwear\<rparr>)"
    by (simp add: getProduct_def with_category_def saveCartToStorage_def calm_def
          shop_def shoes_def hat_def footwear_def)
  have p2: "getProduct ?e ''p1'' ?w = Some (shoes\<lparr>category := Some footwear\<rparr>)"
    by (simp add: getProduct_def with_category_def saveCartToStorage_def calm_def
          shop_def shoes_def hat_def footwear_def)
  have g1: "getCartItems calm ?w = Inr ?items"
    by (simp add: getCartItems_def getCartFromStorage_save [OF ok(1)] p1)
  have g2: "getCartItems ?e ?w = Inr ?items"
    by (simp add: getCartItems_def getCartFromStorage_save [OF ok(1)] p2)
  have n: "?items \<noteq> []" by simp
  have d: "orderItemsData oid ?items \<noteq> Inl err" for oid err
    by simp
  have r1: "fst (createOrder calm buyer by_card ?w) = Inr (new_order calm buyer by_card ?items)"
    by (simp add: createOrder_steps [OF g1 n ok(3)] Let_def)
  have r2: "fst (createOrder ?e buyer by_card ?w) = Inr (new_order ?e buyer by_card ?items)"
    by (simp add: createOrder_steps [OF g2 n ok(4)] Let_def)
  have o: "world.order_items ?w = []"
    by (simp add: saveCartToStorage_def shop_def)
  have i1: "length (world.order_items (snd (createOrder calm buyer by_card ?w))) = 1"
    by (simp add: createOrder_steps [OF g1 n ok(3)] Let_def oc insert_order_items_def o ok(5))
  have i2: "world.order_items (snd (createOrder ?e buyer by_card ?w)) = []"
    by (simp add: createOrder_steps [OF g2 n ok(4)] Let_def oc insert_order_items_def o ok(6))
  show ?thesis
    using createOrder_clears_cart [OF r1] createOrder_clears_cart [OF r2] i1 i2 ok(1,2)
    by simp
qed

text \<open>
  C5, as the claim states it, fails in three ways. On a cart that already holds one of
  the product, adding 2 and then 3 stores 6, not 5. When the browser refuses the first
  write, the second call finds no item and stores 3. And the sum is a sum of doubles:
  adding \<open>2^53\<close> and then 1 stores \<open>2^53\<close>.
\<close>

theorem addToCart_accumulates_counterexample:
  "stored_items (snd (addToCart calm ''p1'' (num 3) (snd (addToCart calm ''p1'' (num 2)
       (saveCartToStorage calm [line ''1'' ''p1'' (num 1)] shop))))) =
     [line ''1'' ''p1'' (num 6)] \<and>
   stored_items (snd (addToCart calm ''p1'' (num 3) (snd (addToCart refusing ''p1'' (num 2) shop)))) =
     [line ''1700000000000'' ''p1'' (num 3)] \<and>
   stored_items (snd (addToCart calm ''p1'' (num 1)
       (snd (addToCart calm ''p1'' (num 9007199254740992) shop)))) =
     [line ''1700000000000'' ''p1'' (num 9007199254740992)]"
proof -
  let ?P = "\<lambda>item. CartItem.product_id item = ''p1''"
  have ok: "setItem_ok calm" and no: "\<not> setItem_ok refusing"
    by (simp_all add: calm_def refusing_def)
  have t: "toString (now calm) = ''1700000000000''"
    by (simp add: calm_def toString.simps digit_def)
  have e: "getCartFromStorage shop = Items []"
    by (simp add: getCartFromStorage_def getCartFromStorage_try_def shop_def)
  have add: "getCartFromStorage v = Items [line i ''p1'' (num a)] \<Longrightarrow>
      stored_items (snd (addToCart calm ''p1'' (num b) v)) =
        [line i ''p1'' (json_number (js_add (num a) (num b)))]" for v i a b
    by (simp add: addToCart_world stored_items_save [OF ok] line_def json_item_def)
  have new: "snd (addToCart calm ''p1'' (num a) shop) =
      saveCartToStorage calm [line ''1700000000000'' ''p1'' (num a)] shop" for a
    using addToCart_new [OF e, of "''p1''" calm "num a"] t by simp
  have one: "stored_items (snd (addToCart calm ''p1'' (num 3) (snd (addToCart calm ''p1'' (num 2)
       (saveCartToStorage calm [line ''1'' ''p1'' (num 1)] shop))))) = [line ''1'' ''p1'' (num 6)]"
  proof -
    have "snd (addToCart calm ''p1'' (num 2) (saveCartToStorage calm [line ''1'' ''p1'' (num 1)] shop)) =
        saveCartToStorage calm [line ''1'' ''p1'' (num 3)] shop"
      by (simp add: addToCart_world [where cart = "[line ''1'' ''p1'' (num 1)]"]
            getCartFromStorage_save [OF ok] save_save [OF ok] js_add_def line_def)
    then show ?thesis
      by (simp add: add [of _ "''1''" 3] getCartFromStorage_save [OF ok] js_add_def)
  qed
  have two: "stored_items (snd (addToCart calm ''p1'' (num 3)
       (snd (addToCart refusing ''p1'' (num 2) shop)))) = [line ''1700000000000'' ''p1'' (num 3)]"
    by (simp add: addToCart_refused [OF no] new stored_items_save [OF ok])
  have x: "exponent 9007199254740993 = 1"
    by (simp add: exponent_def scale_down.simps)
  have r: "round_double 9007199254740993 = Fin 9007199254740992"
    by (simp add: round_double_def x round_half_even_def pow2_def Let_def)
  have three: "stored_items (snd (addToCart calm ''p1'' (num 1)
       (snd (addToCart calm ''p1'' (num 9007199254740992) shop)))) =
     [line ''1700000000000'' ''p1'' (num 9007199254740992)]"
    by (simp add: new add [of _ "''1700000000000''" 9007199254740992]
          getCartFromStorage_save [OF ok] js_add_def r)
  from one two three show ?thesis by simp
qed

text \<open>
  C5, amended. Starting from a cart that holds no item for \<open>productId\<close>, and with both
  writes accepted, \<open>addToCart(productId, q1)\<close> followed by \<open>addToCart(productId, q2)\<close>
  leaves the cart it found with one more item, the only one for that product; its
  quantity is the double sum of \<open>q1\<close> and \<open>q2\<close> as JSON holds it, which is \<open>q1 + q2\<close>
  whenever both are finite and their sum is a double. And \<open>addToCart\<close> never makes a
  second item for a product: when no two stored items share a \<open>product_id\<close> before a
  call, none do after it.
\<close>

theorem addToCart_accumulates:
  "(setItem_ok e1 \<and> setItem_ok e2 \<and> getCartFromStorage w = Items cart \<and>
    (\<forall>item\<in>set cart. CartItem.product_id item \<noteq> productId) \<longrightarrow>
      stored_items (snd (addToCart e2 productId q2 (snd (addToCart e1 productId q1 w)))) =
        map json_item cart @
        [line (toString (now e1)) productId (json_number (js_add (json_number q1) q2))] \<and>
      filter (\<lambda>item. CartItem.product_id item = productId)
        (stored_items (snd (addToCart e2 productId q2 (snd (addToCart e1 productId q1 w))))) =
        [line (toString (now e1)) productId (json_number (js_add (json_number q1) q2))]) \<and>
   (\<forall>a b. q1 = num a \<and> q2 = num b \<and> representable (a + b) \<longrightarrow>
      json_number (js_add (json_number q1) q2) = num (a + b)) \<and>
   (distinct (map CartItem.product_id (stored_items w)) \<longrightarrow>
      distinct (map CartItem.product_id (stored_items (snd (addToCart e1 productId q1 w)))))"
proof (intro conjI impI allI)
  assume a: "setItem_ok e1 \<and> setItem_ok e2 \<and> getCartFromStorage w = Items cart \<and>
    (\<forall>item\<in>set cart. CartItem.product_id item \<noteq> productId)"
  let ?P = "\<lambda>item. CartItem.product_id item = productId"
  let ?new = "line (toString (now e1)) productId (json_number q1)"
  let ?w1 = "snd (addToCart e1 productId q1 w)"
  let ?sum = "line (toString (now e1)) productId (json_number (js_add (json_number q1) q2))"
  from a have ok1: "setItem_ok e1" and ok2: "setItem_ok e2" by simp_all
  from a have w1: "?w1 = saveCartToStorage e1 (cart @ [line (toString (now e1)) productId q1]) w"
    by (simp add: addToCart_new)
  then have c1: "getCartFromStorage ?w1 = Items (map json_item cart @ [?new])"
    by (simp add: getCartFromStorage_save [OF ok1])
  from a have miss: "\<forall>x\<in>set (map json_item cart). \<not> ?P x" by simp
  then have "find ?P (map json_item cart) = None" by (simp add: find_None_iff)
  then have f: "find ?P (map json_item cart @ [?new]) = Some ?new"
    by (rule find_append_new) simp
  have "snd (addToCart e2 productId q2 ?w1) =
      saveCartToStorage e2
        (update_first ?P (\<lambda>item. item\<lparr>CartItem.quantity := js_add (CartItem.quantity item) q2\<rparr>)
           (map json_item cart @ [?new])) ?w1"
    by (rule addToCart_existing [OF c1 f])
  then show s: "stored_items (snd (addToCart e2 productId q2 ?w1)) = map json_item cart @ [?sum]"
    by (simp add: stored_items_save [OF ok2] update_first_append_miss [OF miss] line_def
          json_item_def)
  from miss have "filter ?P (map json_item cart) = []" by (simp add: filter_empty_conv)
  then show "filter ?P (stored_items (snd (addToCart e2 productId q2 ?w1))) = [?sum]"
    by (simp add: s)
next
  fix a b :: rat
  assume "q1 = num a \<and> q2 = num b \<and> representable (a + b)"
  then show "json_number (js_add (json_number q1) q2) = num (a + b)"
    by (simp add: js_add_exact)
next
  assume "distinct (map CartItem.product_id (stored_items w))"
  then show "distinct (map CartItem.product_id (stored_items (snd (addToCart e1 productId q1 w))))"
    by (rule addToCart_distinct)
qed

text \<open>A cart with a hat; add 2 pairs of shoes, then 3 more.\<close>

theorem addToCart_accumulates_witness:
  "stored_items (snd (addToCart (calm\<lparr>now := 1700000000005\<rparr>) ''p1'' (num 3)
       (snd (addToCart calm ''p1'' (num 2) (saveCartToStorage calm [line ''7'' ''p2'' (num 1)] shop))))) =
     [line ''7'' ''p2'' (num 1), line ''1700000000000'' ''p1'' (num 5)] \<and>
   distinct (map CartItem.product_id (stored_items (snd (addToCart calm ''p1'' (num 2)
       (saveCartToStorage calm [line ''7'' ''p2'' (num 1)] shop)))))"
proof -
  let ?w = "saveCartToStorage calm [line ''7'' ''p2'' (num 1)] shop"
  have ok: "setItem_ok calm" "setItem_ok (calm\<lparr>now := 1700000000005\<rparr>)"
    by (simp_all add: calm_def)
  have c: "getCartFromStorage ?w = Items [line ''7'' ''p2'' (num 1)]"
    by (simp add: getCartFromStorage_save [OF ok(1)])
  have m: "\<forall>item\<in>set [line ''7'' ''p2'' (num 1)]. CartItem.product_id item \<noteq> ''p1''"
    by simp
  have d: "distinct (map CartItem.product_id (stored_items ?w))"
    by (simp add: stored_items_save [OF ok(1)])
  have t: "toString (now calm) = ''1700000000000''"
    by (simp add: calm_def toString.simps digit_def)
  have q: "json_number (js_add (json_number (num 2)) (num 3)) = num 5"
    by (simp add: js_add_def)
  show ?thesis
    using addToCart_accumulates [where ?e1.0 = calm and ?e2.0 = "calm\<lparr>now := 1700000000005\<rparr>"
        and w = ?w and cart = "[line ''7'' ''p2'' (num 1)]" and productId = "''p1''"
        and ?q1.0 = "num 2" and ?q2.0 = "num 3"] ok c m d t q
    by simp
qed

text \<open>
  C6, as the claim states it, fails: when the browser refuses the write, the item is
  neither overwritten (quantity 5) nor removed (quantity 0).
\<close>

theorem updateCartItemQuantity_refused_counterexample:
  "stored_items (snd (updateCartItemQuantity refusing ''1'' (num 5)
      (saveCartToStorage calm [line ''1'' ''p1'' (num 2), line ''2'' ''p2'' (num 1)] shop))) =
     [line ''1'' ''p1'' (num 2), line ''2'' ''p2'' (num 1)] \<and>
   stored_items (snd (updateCartItemQuantity refusing ''1'' (num 0)
      (saveCartToStorage calm [line ''1'' ''p1'' (num 2), line ''2'' ''p2'' (num 1)] shop))) =
     [line ''1'' ''p1'' (num 2), line ''2'' ''p2'' (num 1)]"
proof -
  have ok: "setItem_ok calm" and no: "\<not> setItem_ok refusing"
    by (simp_all add: calm_def refusing_def)
  show ?thesis
    by (simp add: updateCartItemQuantity_refused [OF no] stored_items_save [OF ok])
qed

text \<open>
  C6, amended. For every item id and quantity, after
  \<open>updateCartItemQuantity(itemId, quantity)\<close> with the write accepted: with a quantity
  of 0 or less no stored item has that id; with a quantity above 0 the item stored
  under that id (the one \<open>find\<close> returns) has that quantity as JSON holds it, exactly
  that quantity when it is finite, and it is the only item with that id when the ids
  of the cart are distinct. The items with another id are as they were, and a second
  call with the same arguments changes nothing (the overwrite is idempotent). With the
  write refused the cart is as it was.
\<close>

theorem updateCartItemQuantity_overwrites:
  "let w' = snd (updateCartItemQuantity e itemId qty w);
       same = (\<lambda>i. CartItem.id i = itemId)
   in (setItem_ok e \<and> js_le qty (num 0) \<longrightarrow>
         list_all (\<lambda>i. CartItem.id i \<noteq> itemId) (stored_items w')) \<and>
      (setItem_ok e \<and> js_gt qty (num 0) \<longrightarrow>
         (\<forall>item. find same (stored_items w) = Some item \<longrightarrow>
            find same (stored_items w') = Some (item\<lparr>CartItem.quantity := json_number qty\<rparr>) \<and>
            (distinct (map CartItem.id (stored_items w)) \<longrightarrow>
               filter same (stored_items w') = [item\<lparr>CartItem.quantity := json_number qty\<rparr>]))) \<and>
      (\<forall>q. qty = num q \<longrightarrow> json_number qty = qty) \<and>
      map json_item (filter (\<lambda>i. CartItem.id i \<noteq> itemId) (stored_items w')) =
        map json_item (filter (\<lambda>i. CartItem.id i \<noteq> itemId) (stored_items w)) \<and>
      (setItem_ok e \<longrightarrow> snd (updateCartItemQuantity e' itemId qty w') = w') \<and>
      (\<not> setItem_ok e \<longrightarrow> w' = w)"
  unfolding Let_def
  using updateCartItemQuantity_removes [of e qty itemId w]
    updateCartItemQuantity_sets [of e qty itemId w]
    updateCartItemQuantity_others [of itemId e qty w]
    updateCartItemQuantity_idem [of e e' itemId qty w]
    updateCartItemQuantity_refused [of e itemId qty w]
  by (simp (no_asm_simp))

text \<open>Shoes and a hat: set the shoes to 5, then to 0.\<close>

theorem updateCartItemQuantity_overwrites_witness:
  "find (\<lambda>i. CartItem.id i = ''1'')
     (stored_items (snd (updateCartItemQuantity calm ''1'' (num 5)
        (saveCartToStorage calm [line ''1'' ''p1'' (num 2), line ''2'' ''p2'' (num 1)] shop)))) =
     Some (line ''1'' ''p1'' (num 5)) \<and>
   filter (\<lambda>i. CartItem.id i = ''1'')
     (stored_items (snd (updateCartItemQuantity calm ''1'' (num 5)
        (saveCartToStorage calm [line ''1'' ''p1'' (num 2), line ''2'' ''p2'' (num 1)] shop)))) =
     [line ''1'' ''p1'' (num 5)] \<and>
   list_all (\<lambda>i. CartItem.id i \<noteq> ''1'')
     (stored_items (snd (updateCartItemQuantity calm ''1'' (num 0)
        (saveCartToStorage calm [line ''1'' ''p1'' (num 2), line ''2'' ''p2'' (num 1)] shop)))) \<and>
   map json_item (filter (\<lambda>i. CartItem.id i \<noteq> ''1'')
     (stored_items (snd (updateCartItemQuantity calm ''1'' (num 0)
        (saveCartToStorage calm [line ''1'' ''p1'' (num 2), line ''2'' ''p2'' (num 1)] shop))))) =
     [line ''2'' ''p2'' (num 1)]"
proof -
  let ?w = "saveCartToStorage calm [line ''1'' ''p1'' (num 2), line ''2'' ''p2'' (num 1)] shop"
  have ok: "setItem_ok calm" by (simp add: calm_def)
  have st: "stored_items ?w = [line ''1'' ''p1'' (num 2), line ''2'' ''p2'' (num 1)]"
    by (simp add: stored_items_save [OF ok])
  have f: "find (\<lambda>i. CartItem.id i = ''1'') (stored_items ?w) = Some (line ''1'' ''p1'' (num 2))"
    by (simp add: st)
  have d: "distinct (map CartItem.id (stored_items ?w))"
    by (simp add: st)
  have o: "map json_item (filter (\<lambda>i. CartItem.id i \<noteq> ''1'') (stored_items ?w)) =
      [line ''2'' ''p2'' (num 1)]"
    by (simp add: st)
  have l: "(line ''1'' ''p1'' (num 2))\<lparr>CartItem.quantity := num 5\<rparr> = line ''1'' ''p1'' (num 5)"
    by (simp add: line_def)
  have g: "js_gt (num 5) (num 0)" and z: "js_le (num 0) (num 0)"
    by (simp_all add: js_gt_def js_le_def)
  show ?thesis
    using updateCartItemQuantity_overwrites [of calm "''1''" "num 5" ?w calm]
      updateCartItemQuantity_overwrites [of calm "''1''" "num 0" ?w calm] ok f d o l g z
    by (simp add: Let_def)
qed

text \<open>
  C7. The invariant "no stored cart item has a quantity of 0 or less" is kept by
  \<open>updateCartItemQuantity\<close> with a finite quantity, by \<open>removeFromCart\<close> and \<open>clearCart\<close>,
  and by \<open>addToCart\<close> when it appends an item with a positive finite quantity (the
  lemmas above). \<open>addToCart\<close> does not test the quantity it is given, as
  \<open>updateCartItemQuantity\<close> does: on the empty cart \<open>addToCart(''p1'', 0)\<close> stores an
  item of quantity 0, and \<open>addToCart(''p1'', -3)\<close> on a cart with two of \<open>p1\<close> stores the
  quantity -1.
\<close>

theorem addToCart_stores_nonpositive:
  "quantities_positive shop \<and>
   stored_items (snd (addToCart calm ''p1'' (num 0) shop)) = [line ''1700000000000'' ''p1'' (num 0)] \<and>
   \<not> quantities_positive (snd (addToCart calm ''p1'' (num 0) shop)) \<and>
   quantities_positive (saveCartToStorage calm [line ''1'' ''p1'' (num 2)] shop) \<and>
   stored_items (snd (addToCart calm ''p1'' (num (- 3))
       (saveCartToStorage calm [line ''1'' ''p1'' (num 2)] shop))) =
     [line ''1'' ''p1'' (num (- 1))]"
proof -
  have ok: "setItem_ok calm" by (simp add: calm_def)
  have e: "getCartFromStorage shop = Items []"
    by (simp add: getCartFromStorage_def getCartFromStorage_try_def shop_def)
  have t: "toString (now calm) = ''1700000000000''"
    by (simp add: calm_def toString.simps digit_def)
  have z: "snd (addToCart calm ''p1'' (num 0) shop) =
      saveCartToStorage calm [line ''1700000000000'' ''p1'' (num 0)] shop"
    using addToCart_new [OF e, of "''p1''" calm "num 0"] t by simp
  have n: "snd (addToCart calm ''p1'' (num (- 3)) (saveCartToStorage calm [line ''1'' ''p1'' (num 2)] shop)) =
      saveCartToStorage calm [line ''1'' ''p1'' (num (- 1))] shop"
    by (simp add: addToCart_world [where cart = "[line ''1'' ''p1'' (num 2)]"]
          getCartFromStorage_save [OF ok] save_save [OF ok] js_add_def line_def)
  show ?thesis
    by (simp add: z n quantities_positive_Items [OF e] quantities_positive_save [OF ok]
          stored_items_save [OF ok] js_gt_def)
qed

text \<open>
  C8. When the slug resolves to no category (\<open>catData\<close> is \<open>null\<close>), \<open>getProducts\<close>
  adds no filter: it returns what it returns for \<open>''all''\<close> with the same search query,
  and with no search query and a products request that succeeds that is every product
  of the table, each with its category embedded.
\<close>

theorem getProducts_unresolved_slug:
  assumes "catData e categorySlug w = None"
  shows "getProducts Fuse e categorySlug searchQuery w = getProducts Fuse e ''all'' searchQuery w \<and>
         (products_ok e \<longrightarrow>
            getProducts Fuse e categorySlug [] w = map (with_category w) (products w))"
  using assms by (simp add: getProducts_def products_query_def)

text \<open>No category has the slug \<open>toys\<close>; \<open>footwear\<close> has one, and filters.\<close>

theorem getProducts_unresolved_slug_witness:
  "catData calm ''toys'' shop = None \<and>
   getProducts (\<lambda>rows q. rows) calm ''toys'' [] shop =
     [shoes\<lparr>category := Some footwear\<rparr>, hat] \<and>
   getProducts (\<lambda>rows q. rows) calm ''footwear'' [] shop = [shoes\<lparr>category := Some footwear\<rparr>]"
proof -
  have c: "catData calm ''toys'' shop = None"
    by (simp add: catData_def shop_def footwear_def calm_def)
  have ok: "products_ok calm" by (simp add: calm_def)
  have a: "map (with_category shop) (products shop) = [shoes\<lparr>category := Some footwear\<rparr>, hat]"
    by (simp add: with_category_def shop_def shoes_def hat_def footwear_def)
  have f: "getProducts (\<lambda>rows q. rows) calm ''footwear'' [] shop = [shoes\<lparr>category := Some footwear\<rparr>]"
    by (simp add: getProducts_def products_query_def catData_def with_category_def
          shop_def shoes_def hat_def footwear_def calm_def)
  from getProducts_unresolved_slug [OF c, of "\<lambda>rows q. rows" "[]"] ok a
  have "getProducts (\<lambda>rows q. rows) calm ''toys'' [] shop =
      [shoes\<lparr>category := Some footwear\<rparr>, hat]"
    by (elim conjE) simp
  with c f show ?thesis by simp
qed

text \<open>
  C9, as the claim states it, fails: the read returns whatever the stored text parses
  to, and a stored \<open>null\<close> is returned as \<open>null\<close>, which is not a list of cart items.
\<close>

theorem getCartFromStorage_null_counterexample:
  "\<not> is_cart_list (getCartFromStorage (shop\<lparr>slot := Some (Encodes Null)\<rparr>))"
  by (simp add: getCartFromStorage_def getCartFromStorage_try_def)

text \<open>
  C9, amended. The read never raises. It returns the empty list whenever the body of
  its \<open>try\<close> raises, so when the key is absent, when the text is empty and when
  \<open>JSON.parse\<close> fails; a text that parses is returned as the value it encodes, and the
  result is a list of cart items exactly when the slot holds no text that encodes
  something else.
\<close>

theorem getCartFromStorage_reads:
  "(\<forall>err. getCartFromStorage_try (slot w) = Inl err \<longrightarrow> getCartFromStorage w = Items []) \<and>
   (slot w = None \<or> slot w = Some Empty_text \<or> slot w = Some Malformed \<longrightarrow>
      getCartFromStorage w = Items []) \<and>
   (\<forall>v. slot w = Some (Encodes v) \<longrightarrow> getCartFromStorage w = v) \<and>
   (is_cart_list (getCartFromStorage w) \<longleftrightarrow>
      (\<forall>v. slot w = Some (Encodes v) \<longrightarrow> is_cart_list v))"
proof -
  have "getCartFromStorage w = Items []" if "getCartFromStorage_try (slot w) = Inl err" for err
    using that by (simp add: getCartFromStorage_def)
  moreover have "getCartFromStorage w = Items []"
    if "slot w = None \<or> slot w = Some Empty_text \<or> slot w = Some Malformed"
    using that by (auto simp: getCartFromStorage_def getCartFromStorage_try_def)
  moreover have v: "getCartFromStorage w = v" if "slot w = Some (Encodes v)" for v
    using that by (simp add: getCartFromStorage_def getCartFromStorage_try_def)
  moreover have "is_cart_list (getCartFromStorage w) \<longleftrightarrow>
      (\<forall>v. slot w = Some (Encodes v) \<longrightarrow> is_cart_list v)"
  proof (cases "slot w")
    case None
    then show ?thesis by (simp add: getCartFromStorage_def getCartFromStorage_try_def)
  next
    case (Some t)
    then show ?thesis
      by (cases t) (simp_all add: getCartFromStorage_def getCartFromStorage_try_def)
  qed
  ultimately show ?thesis by blast
qed

text \<open>The absent key, the empty text, a malformed text, a stored cart and a stored 42.\<close>

theorem getCartFromStorage_reads_witness:
  "getCartFromStorage shop = Items [] \<and>
   getCartFromStorage (shop\<lparr>slot := Some Empty_text\<rparr>) = Items [] \<and>
   getCartFromStorage_try (Some Malformed) = Inl SyntaxError \<and>
   getCartFromStorage (shop\<lparr>slot := Some Malformed\<rparr>) = Items [] \<and>
   getCartFromStorage (shop\<lparr>slot := Some (Encodes (Items [line ''1'' ''p1'' (num 2)]))\<rparr>) =
     Items [line ''1'' ''p1'' (num 2)] \<and>
   getCartFromStorage (shop\<lparr>slot := Some (Encodes (Num (num 42)))\<rparr>) = Num (num 42)"
proof -
  have t: "getCartFromStorage_try (slot (shop\<lparr>slot := Some Malformed\<rparr>)) = Inl SyntaxError"
    by (simp add: getCartFromStorage_try_def)
  show ?thesis
    using getCartFromStorage_reads [of shop]
      getCartFromStorage_reads [of "shop\<lparr>slot := Some Empty_text\<rparr>"]
      getCartFromStorage_reads [of "shop\<lparr>slot := Some Malformed\<rparr>"]
      getCartFromStorage_reads [of "shop\<lparr>slot := Some (Encodes (Items [line ''1'' ''p1'' (num 2)]))\<rparr>"]
      getCartFromStorage_reads [of "shop\<lparr>slot := Some (Encodes (Num (num 42)))\<rparr>"] t
    by (simp add: shop_def)
qed

text \<open>
  C10. When the cart holds an item whose product lookup returns nothing and the server
  accepts the insert of the order, \<open>createOrder\<close> writes the order row and then raises
  a TypeError while it builds the order-item objects: the order row stays, no
  order-item row is written, and the slot is not cleared.
\<close>

theorem createOrder_absent_product:
  assumes "getCartFromStorage w = Items cart" and "item \<in> set cart"
    and "getProduct e (CartItem.product_id item) w = None" and "orders_ok e"
  shows "fst (createOrder e a p w) = Inl TypeError \<and>
         added_orders w (snd (createOrder e a p w)) =
           [new_order e a p
              (map (\<lambda>i. i\<lparr>product := getProduct e (CartItem.product_id i) w\<rparr>) cart)] \<and>
         world.order_items (snd (createOrder e a p w)) = world.order_items w \<and>
         slot (snd (createOrder e a p w)) = slot w"
proof -
  let ?items = "map (\<lambda>i. i\<lparr>product := getProduct e (CartItem.product_id i) w\<rparr>) cart"
  from assms(1) have items: "getCartItems e w = Inr ?items"
    by (simp add: getCartItems_def)
  from assms(2,3) have ex: "list_ex (\<lambda>i. product i = None) ?items"
    by (auto simp: list_ex_iff)
  then have ne: "?items \<noteq> []" by auto
  show ?thesis
    by (simp add: createOrder_steps [OF items ne assms(4)] Let_def
          orderItemsData_absent [OF ex] added_orders_def)
qed

text \<open>Shoes and a product \<open>p9\<close> that the catalog does not have.\<close>

theorem createOrder_absent_product_witness:
  "fst (createOrder calm buyer by_card
          (saveCartToStorage calm [line ''1'' ''p1'' (num 2), line ''2'' ''p9'' (num 1)] shop)) =
     Inl TypeError \<and>
   length (orders (snd (createOrder calm buyer by_card
          (saveCartToStorage calm [line ''1'' ''p1'' (num 2), line ''2'' ''p9'' (num 1)] shop)))) = 1 \<and>
   world.order_items (snd (createOrder calm buyer by_card
          (saveCartToStorage calm [line ''1'' ''p1'' (num 2), line ''2'' ''p9'' (num 1)] shop))) = [] \<and>
   stored_items (snd (createOrder calm buyer by_card
          (saveCartToStorage calm [line ''1'' ''p1'' (num 2), line ''2'' ''p9'' (num 1)] shop)))
     = [line ''1'' ''p1'' (num 2), line ''2'' ''p9'' (num 1)]"
proof -
  let ?cart = "[line ''1'' ''p1'' (num 2), line ''2'' ''p9'' (num 1)]"
  let ?w = "saveCartToStorage calm ?cart shop"
  have s: "setItem_ok calm" by (simp add: calm_def)
  have c: "getCartFromStorage ?w = Items ?cart"
    by (simp add: getCartFromStorage_save [OF s])
  have m: "line ''2'' ''p9'' (num 1) \<in> set ?cart" by simp
  have g: "getProduct calm (CartItem.product_id (line ''2'' ''p9'' (num 1))) ?w = None"
    by (simp add: getProduct_def saveCartToStorage_def calm_def shop_def shoes_def hat_def)
  have ok: "orders_ok calm" by (simp add: calm_def)
  have o: "orders ?w = []" and oi: "world.order_items ?w = []"
    by (simp_all add: saveCartToStorage_def shop_def)
  have st: "stored_items (snd (createOrder calm buyer by_card ?w)) = stored_items ?w"
    using createOrder_absent_product [OF c m g ok, of buyer by_card]
    by (simp add: stored_items_def getCartFromStorage_def)
  show ?thesis
    using createOrder_absent_product [OF c m g ok, of buyer by_card] o oi st c
    by (simp add: added_orders_def stored_items_def)
qed

end
